theory Spec2Isabelle
  imports Complex_Main
begin

section \<open>Numbers and text of the host language\<close>

text \<open>
  Minutes are whole numbers (\<open>int\<close>); hours are the two-decimal quotients that
  \<open>toHours\<close> produces (\<open>rat\<close>). \<open>Number(s)\<close> is embedded for the strings the form's
  time and number controls supply: a run of ASCII digits, the empty string converting
  to 0. \<open>None\<close> stands for NaN. Numerals with a sign, a fraction, an exponent, a radix
  prefix or surrounding white space are not covered, and \<open>jsNumber\<close> is not \<open>Number\<close> on
  them. Every property below that depends on a time or on the break therefore assumes
  that \<open>parseTimeToMinutes\<close> or \<open>jsNumber\<close> yields \<open>Some\<close> whole number of minutes for it:
  on those strings the two functions agree with the source.
\<close>

definition isDigit :: "char \<Rightarrow> bool" where
  "isDigit c = (48 \<le> (of_char c :: nat) \<and> (of_char c :: nat) \<le> 57)"

definition digitValue :: "char \<Rightarrow> int" where
  "digitValue c = int (of_char c) - 48"

definition jsNumber :: "string \<Rightarrow> int option" where
  "jsNumber s =
     (if list_all isDigit s then Some (foldl (\<lambda>acc c. acc * 10 + digitValue c) 0 s)
      else None)"

text \<open>\<open>time.split(":")\<close>: the pieces between the colons, one piece for a string without colon.\<close>

fun splitColon :: "string \<Rightarrow> string list" where
  "splitColon [] = [[]]"
| "splitColon (c # cs) =
     (if c = CHR '':'' then [] # splitColon cs
      else (case splitColon cs of
              [] \<Rightarrow> [[c]]
            | p # ps \<Rightarrow> (c # p) # ps))"

section \<open>Utility functions\<close>

text \<open>
  \<open>const [h, m] = time.split(":").map(Number); return h * 60 + m\<close>. A missing second
  piece is \<open>undefined\<close>, and the sum is then NaN.
\<close>

definition parseTimeToMinutes :: "string \<Rightarrow> int option" where
  "parseTimeToMinutes time =
     (case map jsNumber (splitColon time) of
        Some h # Some m # _ \<Rightarrow> Some (h * 60 + m)
      | _ \<Rightarrow> None)"

definition overlapMinutes :: "int \<Rightarrow> int \<Rightarrow> int \<Rightarrow> int \<Rightarrow> int" where
  "overlapMinutes start1 end1 start2 end2 =
     (let start = max start1 start2;
          end = min end1 end2
      in max 0 (end - start))"

text \<open>
  \<open>Math.round((mins / 60) * 100) / 100\<close>; \<open>Math.round\<close> takes a half upwards. For a whole
  number of minutes the fraction of \<open>mins / 60 * 100\<close> is 0, 1/3 or 2/3, never near a half.
\<close>

definition mathRound :: "rat \<Rightarrow> int" where
  "mathRound x = \<lfloor>x + 1 / 2\<rfloor>"

definition toHours :: "int \<Rightarrow> rat" where
  "toHours mins = of_int (mathRound ((of_int mins / 60) * 100)) / 100"

text \<open>Round any positive minutes up to the next 15-minute block.\<close>

definition roundUpToQuarter :: "int \<Rightarrow> int" where
  "roundUpToQuarter mins =
     (if mins \<le> 0 then 0 else \<lceil>(of_int mins :: rat) / 15\<rceil> * 15)"

subsection \<open>The day of the week\<close>

text \<open>
  \<open>new Date(dateStr + "T00:00:00").getDay()\<close> is the platform's: for a calendar date
  written \<open>YYYY-MM-DD\<close> it is the Gregorian weekday of that date, 0 for Sunday, computed
  here by the usual table method. Any other text is taken as an invalid date, whose
  \<open>getDay()\<close> is NaN, so that the array lookup yields \<open>undefined\<close> (\<open>None\<close>).
\<close>

definition isLeapYear :: "int \<Rightarrow> bool" where
  "isLeapYear y = (y mod 4 = 0 \<and> (y mod 100 \<noteq> 0 \<or> y mod 400 = 0))"

definition daysInMonth :: "int \<Rightarrow> int \<Rightarrow> int" where
  "daysInMonth y m =
     (if m = 2 then (if isLeapYear y then 29 else 28)
      else if m = 4 \<or> m = 6 \<or> m = 9 \<or> m = 11 then 30
      else 31)"

definition parseIsoDate :: "string \<Rightarrow> (int \<times> int \<times> int) option" where
  "parseIsoDate s =
     (if length s = 10 \<and> s ! 4 = CHR ''-'' \<and> s ! 7 = CHR ''-'' then
        (case (jsNumber (take 4 s), jsNumber (take 2 (drop 5 s)), jsNumber (drop 8 s)) of
           (Some y, Some m, Some d) \<Rightarrow>
              (if 1 \<le> m \<and> m \<le> 12 \<and> 1 \<le> d \<and> d \<le> daysInMonth y m then Some (y, m, d)
               else None)
         | _ \<Rightarrow> None)
      else None)"

definition monthOffsets :: "int list" where
  "monthOffsets = [0, 3, 2, 5, 0, 3, 5, 1, 4, 6, 2, 4]"

definition getDay :: "int \<Rightarrow> int \<Rightarrow> int \<Rightarrow> nat" where
  "getDay y m d =
     (let y' = (if m < 3 then y - 1 else y)
      in nat ((y' + y' div 4 - y' div 100 + y' div 400 + monthOffsets ! nat (m - 1) + d) mod 7))"

definition dayNames :: "string list" where
  "dayNames = [''Sunday'', ''Monday'', ''Tuesday'', ''Wednesday'', ''Thursday'', ''Friday'',
               ''Saturday'']"

definition getDayOfWeek :: "string \<Rightarrow> string option" where
  "getDayOfWeek dateStr =
     (case parseIsoDate dateStr of
        None \<Rightarrow> None
      | Some (y, m, d) \<Rightarrow> Some (dayNames ! getDay y m d))"

section \<open>NSW public holidays (2016 to 2026)\<close>

definition NSW_PUBLIC_HOLIDAYS :: "string list" where
  "NSW_PUBLIC_HOLIDAYS =
    [''2016-01-01'', ''2016-01-26'', ''2016-03-25'', ''2016-03-26'', ''2016-03-27'', ''2016-03-28'',
     ''2016-04-25'', ''2016-06-13'', ''2016-10-03'', ''2016-12-25'', ''2016-12-26'', ''2016-12-27'',
     ''2017-01-01'', ''2017-01-02'', ''2017-01-26'', ''2017-04-14'', ''2017-04-15'', ''2017-04-16'',
     ''2017-04-17'', ''2017-04-25'', ''2017-06-12'', ''2017-10-02'', ''2017-12-25'', ''2017-12-26'',
     ''2018-01-01'', ''2018-01-26'', ''2018-03-30'', ''2018-03-31'', ''2018-04-01'', ''2018-04-02'',
     ''2018-04-25'', ''2018-06-11'', ''2018-10-01'', ''2018-12-25'', ''2018-12-26'',
     ''2019-01-01'', ''2019-01-26'', ''2019-01-28'', ''2019-04-19'', ''2019-04-20'', ''2019-04-21'',
     ''2019-04-22'', ''2019-04-25'', ''2019-06-10'', ''2019-10-07'', ''2019-12-25'', ''2019-12-26'',
     ''2020-01-01'', ''2020-01-26'', ''2020-01-27'', ''2020-04-10'', ''2020-04-11'', ''2020-04-12'',
     ''2020-04-13'', ''2020-04-25'', ''2020-06-08'', ''2020-10-05'', ''2020-12-25'', ''2020-12-26'',
     ''2020-12-28'',
     ''2021-01-01'', ''2021-01-26'', ''2021-04-02'', ''2021-04-03'', ''2021-04-04'', ''2021-04-05'',
     ''2021-04-25'', ''2021-06-14'', ''2021-10-04'', ''2021-12-25'', ''2021-12-26'', ''2021-12-27'',
     ''2021-12-28'',
     ''2022-01-01'', ''2022-01-03'', ''2022-01-26'', ''2022-04-15'', ''2022-04-16'', ''2022-04-17'',
     ''2022-04-18'', ''2022-04-25'', ''2022-06-13'', ''2022-09-22'', ''2022-10-03'', ''2022-12-25'',
     ''2022-12-26'', ''2022-12-27'',
     ''2023-01-01'', ''2023-01-02'', ''2023-01-26'', ''2023-04-07'', ''2023-04-08'', ''2023-04-09'',
     ''2023-04-10'', ''2023-04-25'', ''2023-06-12'', ''2023-10-02'', ''2023-12-25'', ''2023-12-26'',
     ''2024-01-01'', ''2024-01-26'', ''2024-03-29'', ''2024-03-30'', ''2024-03-31'', ''2024-04-01'',
     ''2024-04-25'', ''2024-06-10'', ''2024-10-07'', ''2024-12-25'', ''2024-12-26'',
     ''2025-01-01'', ''2025-01-27'', ''2025-04-18'', ''2025-04-19'', ''2025-04-20'', ''2025-04-21'',
     ''2025-04-25'', ''2025-06-09'', ''2025-10-06'', ''2025-12-25'', ''2025-12-26'',
     ''2026-01-01'', ''2026-01-26'', ''2026-04-03'', ''2026-04-04'', ''2026-04-05'', ''2026-04-06'',
     ''2026-04-25'', ''2026-06-08'', ''2026-10-05'', ''2026-12-25'', ''2026-12-26'', ''2026-12-28'']"

definition isPublicHoliday :: "string \<Rightarrow> bool" where
  "isPublicHoliday dateStr = List.member NSW_PUBLIC_HOLIDAYS dateStr"

section \<open>Calculation result type\<close>

text \<open>
  The object \<open>applyRules\<close> returns, without its \<open>explanation\<close> text: that field is a
  rendering of the other fields and of the inputs, and nothing below reads it. The field
  \<open>isPublicHoliday\<close> of the source is \<open>isPublicHolidayFlag\<close> here, the name being taken
  by the function. \<open>dayOfWeek\<close> is \<open>None\<close> where the source has \<open>undefined\<close>.
\<close>

record CalculationResult =
  dayOfWeek :: "string option"
  isWeekend :: bool
  isPublicHolidayFlag :: bool
  paidHours :: rat
  ordinaryHours :: rat
  overtime15 :: rat
  overtime20 :: rat
  publicHoliday15 :: rat
  publicHoliday25 :: rat
  minimumRuleApplied :: bool
  mealAllowances :: int
  mealRules :: "string list"

text \<open>
  What a call yields: \<open>Null\<close> is the source's \<open>null\<close>; \<open>Unusable\<close> is the call whose start
  or end time is NaN, which passes the test \<open>end <= start\<close> and returns an object whose
  paid hours are NaN; \<open>Result\<close> carries the object computed from two numeric times.
\<close>

datatype outcome = Null | Unusable | Result CalculationResult

section \<open>Payroll rules engine\<close>

subsection \<open>Break allocation: in-span first, then pre-span, then post-span\<close>

text \<open>The variables \<open>pre\<close>, \<open>mid\<close>, \<open>post\<close> and \<open>remainingBreak\<close> that the closure updates.\<close>

record bands =
  pre :: int
  mid :: int
  post :: int
  remainingBreak :: int

datatype bandKey = MidKey | PreKey | PostKey

definition subtractBreak :: "bandKey \<Rightarrow> bands \<Rightarrow> bands" where
  "subtractBreak key st =
     (let cut = min (case key of MidKey \<Rightarrow> mid st | PreKey \<Rightarrow> pre st | PostKey \<Rightarrow> post st)
                    (remainingBreak st)
      in \<lparr>pre = (if key = PreKey then pre st - cut else pre st),
          mid = (if key = MidKey then mid st - cut else mid st),
          post = (if key = PostKey then post st - cut else post st),
          remainingBreak = remainingBreak st - cut\<rparr>)"

text \<open>
  \<open>Math.max(0, Number(breakMinutesInput) || 0)\<close>: NaN and 0 both give 0. Through
  \<open>jsNumber\<close> this is the source's value for a break written as a run of digits (and for
  the empty string); the properties of the break assume \<open>jsNumber breakMinutesInput = Some brk\<close>
  and speak of \<open>brk\<close>.
\<close>

definition breakMinutesOf :: "string \<Rightarrow> int" where
  "breakMinutesOf breakMinutesInput =
     max 0 (case jsNumber breakMinutesInput of None \<Rightarrow> 0 | Some n \<Rightarrow> n)"

text \<open>The raw overlap with each band, then the three calls of \<open>subtractBreak\<close>.\<close>

definition rawBands :: "int \<Rightarrow> int \<Rightarrow> int \<Rightarrow> bands" where
  "rawBands start end breakMinutes =
     (let spanStart = 8 * 60;
          spanEnd = 20 * 60;
          preSpan = overlapMinutes start end 0 spanStart;
          inSpan = overlapMinutes start end spanStart spanEnd;
          postSpan = overlapMinutes start end spanEnd (24 * 60)
      in \<lparr>pre = preSpan, mid = inSpan, post = postSpan, remainingBreak = breakMinutes\<rparr>)"

definition workedBands :: "int \<Rightarrow> int \<Rightarrow> int \<Rightarrow> bands" where
  "workedBands start end breakMinutes =
     subtractBreak PostKey (subtractBreak PreKey (subtractBreak MidKey
       (rawBands start end breakMinutes)))"

definition workedMinutes :: "bands \<Rightarrow> int" where
  "workedMinutes b = pre b + mid b + post b"

subsection \<open>Raw classification before rounding and minimum pay\<close>

record rawMinutes =
  ordinaryMinutes :: int
  otSegments :: "int list"
  sundayOTMinutesRaw :: int
  ph15Raw :: int
  ph25Raw :: int

definition noRawMinutes :: rawMinutes where
  "noRawMinutes =
     \<lparr>ordinaryMinutes = 0, otSegments = [], sundayOTMinutesRaw = 0, ph15Raw = 0, ph25Raw = 0\<rparr>"

definition classify :: "bool \<Rightarrow> bool \<Rightarrow> bool \<Rightarrow> bands \<Rightarrow> rawMinutes" where
  "classify isPH isSunday isWeekendDay b =
     (if isPH then noRawMinutes\<lparr>ph15Raw := mid b, ph25Raw := pre b + post b\<rparr>
      else if isSunday then noRawMinutes\<lparr>sundayOTMinutesRaw := workedMinutes b\<rparr>
      else if isWeekendDay then noRawMinutes\<lparr>otSegments := [pre b, mid b, post b]\<rparr>
      else (let ordinary = min (mid b) (7 * 60);
                extraInSpanRaw = max 0 (mid b - ordinary)
            in noRawMinutes\<lparr>ordinaryMinutes := ordinary,
                             otSegments := [pre b, extraInSpanRaw, post b]\<rparr>))"

subsection \<open>Overtime and public-holiday penalties with segment-based rounding\<close>

record buckets =
  ot15Minutes :: int
  ot20Minutes :: int
  ph15Minutes :: int
  ph25Minutes :: int

definition noBuckets :: buckets where
  "noBuckets = \<lparr>ot15Minutes = 0, ot20Minutes = 0, ph15Minutes = 0, ph25Minutes = 0\<rparr>"

text \<open>\<open>otSegments.map(roundUpToQuarter).reduce((a, b) => a + b, 0)\<close>.\<close>

definition otTotalRounded :: "int list \<Rightarrow> int" where
  "otTotalRounded segments = foldl (\<lambda>a b. a + b) 0 (map roundUpToQuarter segments)"

definition roundSegments :: "bool \<Rightarrow> bool \<Rightarrow> bool \<Rightarrow> rawMinutes \<Rightarrow> buckets" where
  "roundSegments isPH isSunday isWeekendDay r =
     (if isPH then noBuckets\<lparr>ph15Minutes := roundUpToQuarter (ph15Raw r),
                              ph25Minutes := roundUpToQuarter (ph25Raw r)\<rparr>
      else if isSunday then noBuckets\<lparr>ot20Minutes := roundUpToQuarter (sundayOTMinutesRaw r)\<rparr>
      else if isWeekendDay then
        noBuckets\<lparr>ot15Minutes := min 120 (otTotalRounded (otSegments r)),
                  ot20Minutes := max 0 (otTotalRounded (otSegments r) - 120)\<rparr>
      else
        noBuckets\<lparr>ot15Minutes := min 120 (otTotalRounded (otSegments r)),
                  ot20Minutes := max 0 (otTotalRounded (otSegments r) - 120)\<rparr>)"

subsection \<open>Minimum 4-hour payment rule for Sunday and public holidays\<close>

text \<open>Returns \<open>minimumRuleApplied\<close>, \<open>paidMinutes\<close> and the buckets after the rule.\<close>

definition paidBeforeMinimum :: "bool \<Rightarrow> bool \<Rightarrow> bool \<Rightarrow> int \<Rightarrow> buckets \<Rightarrow> int" where
  "paidBeforeMinimum isPH isSunday isWeekendDay ordinary b =
     (if isPH then ph15Minutes b + ph25Minutes b
      else if isSunday then ot20Minutes b
      else if isWeekendDay then ot15Minutes b + ot20Minutes b
      else ordinary + ot15Minutes b + ot20Minutes b)"

definition minimumRule :: "bool \<Rightarrow> bool \<Rightarrow> bool \<Rightarrow> int \<Rightarrow> buckets \<Rightarrow> bool \<times> int \<times> buckets" where
  "minimumRule isPH isSunday isWeekendDay ordinary b =
     (let paidMinutes = paidBeforeMinimum isPH isSunday isWeekendDay ordinary b
      in if (isPH \<or> isSunday) \<and> paidMinutes < 240 then
           (let diff = 240 - paidMinutes
            in (True, 240,
                if isPH then b\<lparr>ph25Minutes := ph25Minutes b + diff\<rparr>
                else b\<lparr>ot20Minutes := ot20Minutes b + diff\<rparr>))
         else (False, paidMinutes, b))"

subsection \<open>Meal allowances (based on worked minutes, not paid minutes)\<close>

text \<open>The pair is the counter \<open>meals\<close> and the list \<open>mealRules\<close>, updated in the source's order.\<close>

definition mealAllowancesFor ::
  "bool \<Rightarrow> bool \<Rightarrow> int \<Rightarrow> int \<Rightarrow> bands \<Rightarrow> int \<Rightarrow> int \<times> string list" where
  "mealAllowancesFor isPH isWeekendDay start end b ordinary =
     (let workedHours = toHours (workedMinutes b);
          startedBefore6 = (\<not> isPH \<and> \<not> isWeekendDay \<and> start < 360);
          finishedAfter18 = (end > 1080);
          extraInSpanForWeekday = max 0 (mid b - ordinary);
          otMinutesTotalForWeekday = pre b + post b + extraInSpanForWeekday;
          s0 = (0, []);
          s1 = (if startedBefore6
                then (fst s0 + 1, snd s0 @ [''Work commenced before 06:00 on a weekday.''])
                else s0);
          s2 = (if \<not> isPH \<and> \<not> isWeekendDay \<and> otMinutesTotalForWeekday > 120 \<and> finishedAfter18
                then (fst s1 + 1,
                      snd s1 @ [''More than 2 hours overtime extending beyond 18:00 on a weekday.''])
                else s1);
          s3 = (if isWeekendDay \<and> workedHours > 5
                then (1, snd s2 @ [''More than 5 hours worked on a weekend day.''])
                else s2);
          s4 = (if isPH \<and> workedHours > 5
                then (1, snd s3 @ [''More than 5 hours worked on a public holiday.''])
                else s3)
      in (if \<not> isPH \<and> \<not> isWeekendDay \<and> fst s4 > 2 then 2 else fst s4, snd s4))"

subsection \<open>The stages of one call, and the call\<close>

definition isSundayDate :: "string \<Rightarrow> bool" where
  "isSundayDate dateStr = (getDayOfWeek dateStr = Some ''Sunday'')"

definition isWeekendDate :: "string \<Rightarrow> bool" where
  "isWeekendDate dateStr =
     (getDayOfWeek dateStr = Some ''Saturday'' \<or> getDayOfWeek dateStr = Some ''Sunday'')"

definition rawOf :: "string \<Rightarrow> int \<Rightarrow> int \<Rightarrow> int \<Rightarrow> rawMinutes" where
  "rawOf dateStr start end breakMinutes =
     classify (isPublicHoliday dateStr) (isSundayDate dateStr) (isWeekendDate dateStr)
       (workedBands start end breakMinutes)"

definition roundedOf :: "string \<Rightarrow> int \<Rightarrow> int \<Rightarrow> int \<Rightarrow> buckets" where
  "roundedOf dateStr start end breakMinutes =
     roundSegments (isPublicHoliday dateStr) (isSundayDate dateStr) (isWeekendDate dateStr)
       (rawOf dateStr start end breakMinutes)"

definition paidOf :: "string \<Rightarrow> int \<Rightarrow> int \<Rightarrow> int \<Rightarrow> bool \<times> int \<times> buckets" where
  "paidOf dateStr start end breakMinutes =
     minimumRule (isPublicHoliday dateStr) (isSundayDate dateStr) (isWeekendDate dateStr)
       (ordinaryMinutes (rawOf dateStr start end breakMinutes))
       (roundedOf dateStr start end breakMinutes)"

definition mealsOf :: "string \<Rightarrow> int \<Rightarrow> int \<Rightarrow> int \<Rightarrow> int \<times> string list" where
  "mealsOf dateStr start end breakMinutes =
     mealAllowancesFor (isPublicHoliday dateStr) (isWeekendDate dateStr) start end
       (workedBands start end breakMinutes)
       (ordinaryMinutes (rawOf dateStr start end breakMinutes))"

text \<open>The returned object, for numeric \<open>start < end\<close> and the coerced break.\<close>

definition calculate :: "string \<Rightarrow> int \<Rightarrow> int \<Rightarrow> int \<Rightarrow> CalculationResult" where
  "calculate dateStr start end breakMinutes =
     (let (applied, paidMinutes, b) = paidOf dateStr start end breakMinutes;
          (meals, rules) = mealsOf dateStr start end breakMinutes
      in \<lparr>dayOfWeek = getDayOfWeek dateStr,
          isWeekend = isWeekendDate dateStr,
          isPublicHolidayFlag = isPublicHoliday dateStr,
          paidHours = toHours paidMinutes,
          ordinaryHours = toHours (ordinaryMinutes (rawOf dateStr start end breakMinutes)),
          overtime15 = toHours (ot15Minutes b),
          overtime20 = toHours (ot20Minutes b),
          publicHoliday15 = toHours (ph15Minutes b),
          publicHoliday25 = toHours (ph25Minutes b),
          minimumRuleApplied = applied,
          mealAllowances = meals,
          mealRules = rules\<rparr>)"

definition applyRules :: "string \<Rightarrow> string \<Rightarrow> string \<Rightarrow> string \<Rightarrow> outcome" where
  "applyRules dateStr startStr endStr breakMinutesInput =
     (if dateStr = [] \<or> startStr = [] \<or> endStr = [] then Null
      else (case (parseTimeToMinutes startStr, parseTimeToMinutes endStr) of
              (Some start, Some end) \<Rightarrow>
                 (if end \<le> start then Null
                  else Result (calculate dateStr start end (breakMinutesOf breakMinutesInput)))
            | _ \<Rightarrow> Unusable))"

section \<open>Facts about the utility functions\<close>

lemma roundUpToQuarter_ge: "m \<le> roundUpToQuarter m"
proof (cases "m \<le> 0")
  case True
  then show ?thesis by (simp add: roundUpToQuarter_def)
next
  case False
  have "(of_int m :: rat) / 15 \<le> of_int \<lceil>(of_int m :: rat) / 15\<rceil>"
    by (rule le_of_int_ceiling)
  then have "(of_int m :: rat) \<le> of_int \<lceil>(of_int m :: rat) / 15\<rceil> * 15"
    by linarith
  then have "(of_int m :: rat) \<le> of_int (\<lceil>(of_int m :: rat) / 15\<rceil> * 15)"
    by (simp only: of_int_mult of_int_numeral)
  then have "m \<le> \<lceil>(of_int m :: rat) / 15\<rceil> * 15"
    by (simp only: of_int_le_iff)
  with False show ?thesis by (simp add: roundUpToQuarter_def)
qed

lemma roundUpToQuarter_nonneg: "0 \<le> roundUpToQuarter m"
  using roundUpToQuarter_ge [of m] by (cases "m \<le> 0") (simp_all add: roundUpToQuarter_def)

lemma roundUpToQuarter_zero [simp]: "roundUpToQuarter 0 = 0"
  by (simp add: roundUpToQuarter_def)


lemma toHours_int: "toHours m = of_int ((10 * m + 3) div 6) / 100"
proof -
  have "(of_int m / 60) * 100 + 1 / 2 = (of_int (10 * m + 3) :: rat) / of_int 6"
    by (simp add: field_simps)
  then have "mathRound ((of_int m / 60) * 100) = (10 * m + 3) div 6"
    unfolding mathRound_def by (simp only: floor_divide_of_int_eq)
  then show ?thesis by (simp add: toHours_def)
qed

lemma toHours_zero [simp]: "toHours 0 = 0"
  by (simp add: toHours_int)

lemma toHours_ge_4:
  assumes "240 \<le> m" shows "4 \<le> toHours m"
proof -
  have "400 \<le> (10 * m + 3) div 6" using assms by linarith
  then have "(400 :: rat) \<le> of_int ((10 * m + 3) div 6)" by linarith
  then show ?thesis by (simp add: toHours_int)
qed

lemma toHours_gt_5: "(5 < toHours m) = (300 < m)"
proof -
  have "(500 < (10 * m + 3) div 6) = (300 < m)" by linarith
  moreover have "((500 :: rat) < of_int ((10 * m + 3) div 6)) = (500 < (10 * m + 3) div 6)"
    by linarith
  ultimately show ?thesis by (simp add: toHours_int)
qed

section \<open>Facts about the stages\<close>

lemma digits_nonneg:
  "list_all isDigit s \<Longrightarrow> 0 \<le> acc \<Longrightarrow> 0 \<le> foldl (\<lambda>acc c. acc * 10 + digitValue c) acc s"
proof (induction s arbitrary: acc)
  case Nil
  then show ?case by simp
next
  case (Cons c cs)
  from Cons.prems have "0 \<le> digitValue c" by (simp add: isDigit_def digitValue_def)
  with Cons.prems have "0 \<le> acc * 10 + digitValue c" by simp
  with Cons show ?case by simp
qed

lemma jsNumber_nonneg: "jsNumber s = Some n \<Longrightarrow> 0 \<le> n"
  using digits_nonneg [of s 0] by (auto simp: jsNumber_def split: if_splits)

lemma parseTimeToMinutes_nonneg: "parseTimeToMinutes t = Some n \<Longrightarrow> 0 \<le> n"
  by (auto simp: parseTimeToMinutes_def split: list.splits option.splits dest!: jsNumber_nonneg)

lemma parseTimeToMinutes_empty [simp]: "parseTimeToMinutes [] = None"
  by (simp add: parseTimeToMinutes_def jsNumber_def)

lemma breakMinutesOf_nonneg: "0 \<le> breakMinutesOf s"
  by (simp add: breakMinutesOf_def)

lemma applyRules_Result:
  assumes "dateStr \<noteq> []" "parseTimeToMinutes startStr = Some start"
    "parseTimeToMinutes endStr = Some end" "start < end"
  shows "applyRules dateStr startStr endStr brk =
           Result (calculate dateStr start end (breakMinutesOf brk))"
proof -
  from assms have "startStr \<noteq> []" "endStr \<noteq> []" by auto
  with assms show ?thesis by (simp add: applyRules_def)
qed

lemma rawBands_simps [simp]:
  "pre (rawBands s e b) = overlapMinutes s e 0 480"
  "mid (rawBands s e b) = overlapMinutes s e 480 1200"
  "post (rawBands s e b) = overlapMinutes s e 1200 1440"
  "remainingBreak (rawBands s e b) = b"
  by (simp_all add: rawBands_def)

lemma workedBands_pre:
  "pre (workedBands s e b) = pre (rawBands s e b) -
      min (pre (rawBands s e b)) (b - min (mid (rawBands s e b)) b)"
  by (simp add: workedBands_def subtractBreak_def Let_def)

lemma workedBands_mid:
  "mid (workedBands s e b) = mid (rawBands s e b) - min (mid (rawBands s e b)) b"
  by (simp add: workedBands_def subtractBreak_def Let_def)

lemma workedBands_post:
  "post (workedBands s e b) = post (rawBands s e b) -
      min (post (rawBands s e b))
        (b - min (mid (rawBands s e b)) b
           - min (pre (rawBands s e b)) (b - min (mid (rawBands s e b)) b))"
  by (simp add: workedBands_def subtractBreak_def Let_def)

lemma workedBands_nonneg:
  "0 \<le> pre (workedBands s e b)" "0 \<le> mid (workedBands s e b)" "0 \<le> post (workedBands s e b)"
  by (simp_all add: workedBands_pre workedBands_mid workedBands_post)

lemma rawBands_total:
  assumes "0 \<le> s" "s < e" "e \<le> 1440"
  shows "pre (rawBands s e b) + mid (rawBands s e b) + post (rawBands s e b) = e - s"
  using assms by (simp add: overlapMinutes_def Let_def)

lemma calculate_simps:
  "dayOfWeek (calculate d s e b) = getDayOfWeek d"
  "isWeekend (calculate d s e b) = isWeekendDate d"
  "isPublicHolidayFlag (calculate d s e b) = isPublicHoliday d"
  "paidHours (calculate d s e b) = toHours (fst (snd (paidOf d s e b)))"
  "ordinaryHours (calculate d s e b) = toHours (ordinaryMinutes (rawOf d s e b))"
  "overtime15 (calculate d s e b) = toHours (ot15Minutes (snd (snd (paidOf d s e b))))"
  "overtime20 (calculate d s e b) = toHours (ot20Minutes (snd (snd (paidOf d s e b))))"
  "publicHoliday15 (calculate d s e b) = toHours (ph15Minutes (snd (snd (paidOf d s e b))))"
  "publicHoliday25 (calculate d s e b) = toHours (ph25Minutes (snd (snd (paidOf d s e b))))"
  "minimumRuleApplied (calculate d s e b) = fst (paidOf d s e b)"
  "mealAllowances (calculate d s e b) = fst (mealsOf d s e b)"
  "mealRules (calculate d s e b) = snd (mealsOf d s e b)"
  by (simp_all add: calculate_def split_def Let_def)

lemma sunday_is_weekend: "isSundayDate d \<Longrightarrow> isWeekendDate d"
  by (simp add: isSundayDate_def isWeekendDate_def)

lemma paidOf_PH:
  assumes "isPublicHoliday d"
  shows "paidOf d s e b =
     (if ph15Minutes (roundedOf d s e b) + ph25Minutes (roundedOf d s e b) < 240
      then (True, 240, (roundedOf d s e b)\<lparr>ph25Minutes := ph25Minutes (roundedOf d s e b) +
              (240 - (ph15Minutes (roundedOf d s e b) + ph25Minutes (roundedOf d s e b)))\<rparr>)
      else (False, ph15Minutes (roundedOf d s e b) + ph25Minutes (roundedOf d s e b),
            roundedOf d s e b))"
  using assms by (simp add: paidOf_def minimumRule_def paidBeforeMinimum_def Let_def)

lemma paidOf_Sunday:
  assumes "\<not> isPublicHoliday d" "isSundayDate d"
  shows "paidOf d s e b =
     (if ot20Minutes (roundedOf d s e b) < 240
      then (True, 240, (roundedOf d s e b)\<lparr>ot20Minutes := ot20Minutes (roundedOf d s e b) +
              (240 - ot20Minutes (roundedOf d s e b))\<rparr>)
      else (False, ot20Minutes (roundedOf d s e b), roundedOf d s e b))"
  using assms by (simp add: paidOf_def minimumRule_def paidBeforeMinimum_def Let_def)

lemma paidOf_other:
  assumes "\<not> isPublicHoliday d" "\<not> isSundayDate d"
  shows "paidOf d s e b =
     (False,
      (if isWeekendDate d then 0 else ordinaryMinutes (rawOf d s e b)) +
        ot15Minutes (roundedOf d s e b) + ot20Minutes (roundedOf d s e b),
      roundedOf d s e b)"
  using assms by (simp add: paidOf_def minimumRule_def paidBeforeMinimum_def Let_def)

lemma consumed_total:
  fixes p m q b :: int
  assumes "0 \<le> p" "0 \<le> m" "0 \<le> q" "0 \<le> b"
  shows "min m b + min p (b - min m b) + min q (b - min m b - min p (b - min m b)) =
           min b (p + m + q)"
  using assms by linarith

lemma overlapMinutes_nonneg: "0 \<le> overlapMinutes s e s' e'"
  by (simp add: overlapMinutes_def Let_def)

lemma subtractBreak_simps:
  "pre (subtractBreak k st) = (if k = PreKey then pre st - min (pre st) (remainingBreak st) else pre st)"
  "mid (subtractBreak k st) = (if k = MidKey then mid st - min (mid st) (remainingBreak st) else mid st)"
  "post (subtractBreak k st) = (if k = PostKey then post st - min (post st) (remainingBreak st) else post st)"
  "remainingBreak (subtractBreak k st) = remainingBreak st -
     min (case k of MidKey \<Rightarrow> mid st | PreKey \<Rightarrow> pre st | PostKey \<Rightarrow> post st) (remainingBreak st)"
  by (simp_all add: subtractBreak_def Let_def)

lemma not_weekend_not_sunday: "\<not> isWeekendDate d \<Longrightarrow> \<not> isSundayDate d"
  using sunday_is_weekend by blast

lemma rawOf_weekday:
  assumes "\<not> isPublicHoliday d" "\<not> isWeekendDate d"
  shows "rawOf d s e b =
     \<lparr>ordinaryMinutes = min (mid (workedBands s e b)) 420,
      otSegments = [pre (workedBands s e b), max 0 (mid (workedBands s e b) - 420),
                    post (workedBands s e b)],
      sundayOTMinutesRaw = 0, ph15Raw = 0, ph25Raw = 0\<rparr>"
proof -
  have "max 0 (mid (workedBands s e b) - min (mid (workedBands s e b)) 420) =
        max 0 (mid (workedBands s e b) - 420)"
    by linarith
  with assms not_weekend_not_sunday [OF assms(2)] show ?thesis
    by (simp add: rawOf_def classify_def noRawMinutes_def Let_def)
qed

lemma roundedOf_overtime:
  assumes "\<not> isPublicHoliday d" "\<not> isSundayDate d"
  shows "roundedOf d s e b =
     \<lparr>ot15Minutes = min 120 (otTotalRounded (otSegments (rawOf d s e b))),
      ot20Minutes = max 0 (otTotalRounded (otSegments (rawOf d s e b)) - 120),
      ph15Minutes = 0, ph25Minutes = 0\<rparr>"
  using assms by (simp add: roundedOf_def roundSegments_def noBuckets_def)

lemma otTotalRounded_three:
  "otTotalRounded [a, b, c] = roundUpToQuarter a + roundUpToQuarter b + roundUpToQuarter c"
  by (simp add: otTotalRounded_def)

lemma rawOf_PH:
  assumes "isPublicHoliday d"
  shows "rawOf d s e b =
     \<lparr>ordinaryMinutes = 0, otSegments = [], sundayOTMinutesRaw = 0,
      ph15Raw = mid (workedBands s e b),
      ph25Raw = pre (workedBands s e b) + post (workedBands s e b)\<rparr>"
  using assms by (simp add: rawOf_def classify_def noRawMinutes_def)

lemma roundedOf_PH:
  assumes "isPublicHoliday d"
  shows "roundedOf d s e b =
     \<lparr>ot15Minutes = 0, ot20Minutes = 0,
      ph15Minutes = roundUpToQuarter (mid (workedBands s e b)),
      ph25Minutes = roundUpToQuarter (pre (workedBands s e b) + post (workedBands s e b))\<rparr>"
  using assms by (simp add: roundedOf_def roundSegments_def noBuckets_def rawOf_PH)

lemma rawOf_Sunday:
  assumes "\<not> isPublicHoliday d" "isSundayDate d"
  shows "rawOf d s e b =
     \<lparr>ordinaryMinutes = 0, otSegments = [],
      sundayOTMinutesRaw =
        pre (workedBands s e b) + mid (workedBands s e b) + post (workedBands s e b),
      ph15Raw = 0, ph25Raw = 0\<rparr>"
  using assms by (simp add: rawOf_def classify_def noRawMinutes_def workedMinutes_def)

lemma roundedOf_Sunday:
  assumes "\<not> isPublicHoliday d" "isSundayDate d"
  shows "roundedOf d s e b =
     \<lparr>ot15Minutes = 0,
      ot20Minutes = roundUpToQuarter
        (pre (workedBands s e b) + mid (workedBands s e b) + post (workedBands s e b)),
      ph15Minutes = 0, ph25Minutes = 0\<rparr>"
  using assms by (simp add: roundedOf_def roundSegments_def noBuckets_def rawOf_Sunday)

lemma mealsOf_weekday:
  assumes "\<not> isPublicHoliday d" "\<not> isWeekendDate d"
  shows "mealsOf d s e b =
     ((if s < 360 then 1 else 0) +
      (if 120 < pre (workedBands s e b) + post (workedBands s e b) +
                  max 0 (mid (workedBands s e b) - 420) \<and> 1080 < e then 1 else 0),
      (if s < 360 then [''Work commenced before 06:00 on a weekday.''] else []) @
      (if 120 < pre (workedBands s e b) + post (workedBands s e b) +
                  max 0 (mid (workedBands s e b) - 420) \<and> 1080 < e
       then [''More than 2 hours overtime extending beyond 18:00 on a weekday.''] else []))"
proof -
  have excess: "mid (workedBands s e b) - min (mid (workedBands s e b)) 420 =
      max 0 (mid (workedBands s e b) - 420)"
    by linarith
  show ?thesis
    using assms
    by (simp add: mealsOf_def mealAllowancesFor_def rawOf_weekday Let_def excess)
qed

lemma mealsOf_other:
  assumes "isPublicHoliday d \<or> isWeekendDate d"
  shows "mealsOf d s e b =
     ((if 5 < toHours (workedMinutes (workedBands s e b)) then 1 else 0),
      (if isWeekendDate d \<and> 5 < toHours (workedMinutes (workedBands s e b))
       then [''More than 5 hours worked on a weekend day.''] else []) @
      (if isPublicHoliday d \<and> 5 < toHours (workedMinutes (workedBands s e b))
       then [''More than 5 hours worked on a public holiday.''] else []))"
  using assms
  by (auto simp add: mealsOf_def mealAllowancesFor_def Let_def)

lemma breakMinutesOf_whole: "jsNumber s = Some n \<Longrightarrow> breakMinutesOf s = n"
  using jsNumber_nonneg [of s n] by (simp add: breakMinutesOf_def)

lemma applyRules_whole:
  assumes "dateStr \<noteq> []" "parseTimeToMinutes startStr = Some start"
    "parseTimeToMinutes endStr = Some end" "start < end" "jsNumber breakMinutesInput = Some brk"
  shows "applyRules dateStr startStr endStr breakMinutesInput =
           Result (calculate dateStr start end brk)"
  using applyRules_Result [OF assms(1-4), of breakMinutesInput]
  by (simp add: breakMinutesOf_whole [OF assms(5)])

lemma roundUpToQuarter_block:
  assumes "0 \<le> m"
  shows "15 dvd roundUpToQuarter m \<and> m \<le> roundUpToQuarter m \<and> roundUpToQuarter m < m + 15"
proof (cases "m = 0")
  case True
  then show ?thesis by simp
next
  case False
  with assms have pos: "0 < m" by simp
  have r: "roundUpToQuarter m = \<lceil>(of_int m :: rat) / 15\<rceil> * 15"
    using pos by (simp add: roundUpToQuarter_def)
  have "of_int \<lceil>(of_int m :: rat) / 15\<rceil> - 1 < (of_int m :: rat) / 15"
    using ceiling_correct [of "(of_int m :: rat) / 15"] by simp
  then have "(of_int (\<lceil>(of_int m :: rat) / 15\<rceil> * 15) :: rat) < of_int (m + 15)"
    by (simp add: field_simps)
  then have "\<lceil>(of_int m :: rat) / 15\<rceil> * 15 < m + 15"
    by (simp only: of_int_less_iff)
  with r roundUpToQuarter_ge [of m] show ?thesis by simp
qed

lemma workedBands_total:
  assumes "0 \<le> b"
  shows "pre (workedBands s e b) + mid (workedBands s e b) + post (workedBands s e b) =
     (overlapMinutes s e 0 480 + overlapMinutes s e 480 1200 + overlapMinutes s e 1200 1440) -
     min b (overlapMinutes s e 0 480 + overlapMinutes s e 480 1200 + overlapMinutes s e 1200 1440)"
proof -
  define p where "p = overlapMinutes s e 0 480"
  define m where "m = overlapMinutes s e 480 1200"
  define q where "q = overlapMinutes s e 1200 1440"
  have nn: "0 \<le> p" "0 \<le> m" "0 \<le> q"
    by (simp_all add: p_def m_def q_def overlapMinutes_nonneg)
  have w: "pre (workedBands s e b) = p - min p (b - min m b)"
    "mid (workedBands s e b) = m - min m b"
    "post (workedBands s e b) = q - min q (b - min m b - min p (b - min m b))"
    by (simp_all add: workedBands_pre workedBands_mid workedBands_post p_def m_def q_def)
  have "min m b + min p (b - min m b) + min q (b - min m b - min p (b - min m b)) =
      min b (p + m + q)"
    using nn assms by (rule consumed_total)
  then show ?thesis
    unfolding w p_def [symmetric] m_def [symmetric] q_def [symmetric] by linarith
qed

lemma workedBands_inSpan:
  "mid (workedBands s e b) =
     overlapMinutes s e 480 1200 - min (overlapMinutes s e 480 1200) b"
  by (simp add: workedBands_mid)

section \<open>The claims\<close>

subsection \<open>Minimum payment\<close>

text \<open>
  C1. For a shift with a date, two numeric times, start before end, and a break of a
  whole number of minutes: on a public holiday or a Sunday the paid minutes after
  rounding (\<open>ph15 + ph25\<close>, or \<open>ot20\<close>) that fall below 240 are topped up by exactly the
  shortfall, added to \<open>ph25\<close> (holiday) or \<open>ot20\<close> (Sunday), so that the paid minutes are
  240 and \<open>minimumRuleApplied\<close> is set; paid hours are at least 4 on every such day; on
  any other day the rule does not fire and the buckets are left as rounded. A Sunday
  shift 09:00 to 12:00 without break is raised from 3 to 4 paid hours.
\<close>

theorem minimum_payment_floor:
  assumes "dateStr \<noteq> []"
    and "parseTimeToMinutes startStr = Some start"
    and "parseTimeToMinutes endStr = Some end"
    and "start < end"
    and "jsNumber breakMinutesInput = Some brk"
  shows "(\<exists>r. applyRules dateStr startStr endStr breakMinutesInput = Result r \<and>
     (let b = roundedOf dateStr start end brk;
          (applied, paidMinutes, b') = paidOf dateStr start end brk
      in minimumRuleApplied r = applied \<and> paidHours r = toHours paidMinutes \<and>
         publicHoliday15 r = toHours (ph15Minutes b') \<and>
         publicHoliday25 r = toHours (ph25Minutes b') \<and>
         overtime20 r = toHours (ot20Minutes b') \<and>
         (isPublicHoliday dateStr \<longrightarrow>
            paidMinutes = ph15Minutes b' + ph25Minutes b' \<and> 240 \<le> paidMinutes \<and>
            4 \<le> paidHours r \<and> ph15Minutes b' = ph15Minutes b \<and> ot20Minutes b' = ot20Minutes b \<and>
            (if ph15Minutes b + ph25Minutes b < 240
             then applied \<and> paidMinutes = 240 \<and>
                  ph25Minutes b' = ph25Minutes b + (240 - (ph15Minutes b + ph25Minutes b))
             else \<not> applied \<and> ph25Minutes b' = ph25Minutes b)) \<and>
         (\<not> isPublicHoliday dateStr \<and> isSundayDate dateStr \<longrightarrow>
            paidMinutes = ot20Minutes b' \<and> 240 \<le> paidMinutes \<and> 4 \<le> paidHours r \<and>
            ph15Minutes b' = ph15Minutes b \<and> ph25Minutes b' = ph25Minutes b \<and>
            (if ot20Minutes b < 240
             then applied \<and> paidMinutes = 240 \<and>
                  ot20Minutes b' = ot20Minutes b + (240 - ot20Minutes b)
             else \<not> applied \<and> ot20Minutes b' = ot20Minutes b)) \<and>
         (\<not> isPublicHoliday dateStr \<and> \<not> isSundayDate dateStr \<longrightarrow>
            \<not> minimumRuleApplied r \<and> b' = b))) \<and>
     (getDayOfWeek ''2024-01-07'' = Some ''Sunday'' \<and> \<not> isPublicHoliday ''2024-01-07'' \<and>
      toHours (ot20Minutes (roundedOf ''2024-01-07'' 540 720 0)) = 3 \<and>
      (case applyRules ''2024-01-07'' ''09:00'' ''12:00'' ''0'' of
         Result r \<Rightarrow> paidHours r = 4 \<and> overtime20 r = 4 \<and> minimumRuleApplied r
       | _ \<Rightarrow> False))"
  (is "?general \<and> ?example")
proof -
  have res: "applyRules dateStr startStr endStr breakMinutesInput =
      Result (calculate dateStr start end brk)"
    using assms by (rule applyRules_whole)
  consider (ph) "isPublicHoliday dateStr"
    | (sun) "\<not> isPublicHoliday dateStr" "isSundayDate dateStr"
    | (other) "\<not> isPublicHoliday dateStr" "\<not> isSundayDate dateStr"
    by blast
  then have general: ?general
  proof cases
    case ph
    show ?thesis
      unfolding res using ph
      by (simp add: calculate_simps paidOf_PH toHours_ge_4 Let_def)
  next
    case sun
    show ?thesis
      unfolding res using sun
      by (simp add: calculate_simps paidOf_Sunday toHours_ge_4 Let_def)
  next
    case other
    show ?thesis
      unfolding res using other
      by (simp add: calculate_simps paidOf_other Let_def)
  qed
  have example: ?example
    by code_simp
  from general example show ?thesis by (rule conjI)
qed

theorem minimum_payment_floor_witness:
  "''2024-01-01'' \<noteq> [] \<and> parseTimeToMinutes ''09:00'' = Some 540 \<and>
   parseTimeToMinutes ''10:10'' = Some 610 \<and> (540 :: int) < 610 \<and>
   jsNumber ''5'' = Some 5 \<and> isPublicHoliday ''2024-01-01'' \<and>
   roundedOf ''2024-01-01'' 540 610 5 =
     \<lparr>ot15Minutes = 0, ot20Minutes = 0, ph15Minutes = 75, ph25Minutes = 0\<rparr> \<and>
   (\<exists>r. applyRules ''2024-01-01'' ''09:00'' ''10:10'' ''5'' = Result r \<and>
        minimumRuleApplied r \<and> paidHours r = 4 \<and> publicHoliday15 r = 5 / 4 \<and>
        publicHoliday25 r = 11 / 4) \<and>
   parseTimeToMinutes ''13:00'' = Some 780 \<and> jsNumber ''31'' = Some 31 \<and>
   \<not> isPublicHoliday ''2024-01-07'' \<and> isSundayDate ''2024-01-07'' \<and>
   roundedOf ''2024-01-07'' 540 780 31 =
     \<lparr>ot15Minutes = 0, ot20Minutes = 210, ph15Minutes = 0, ph25Minutes = 0\<rparr> \<and>
   (\<exists>r. applyRules ''2024-01-07'' ''09:00'' ''13:00'' ''31'' = Result r \<and>
        minimumRuleApplied r \<and> paidHours r = 4 \<and> overtime20 r = 4) \<and>
   \<not> isPublicHoliday ''2024-01-03'' \<and> \<not> isSundayDate ''2024-01-03'' \<and>
   (\<exists>r. applyRules ''2024-01-03'' ''09:00'' ''10:10'' ''5'' = Result r \<and>
        \<not> minimumRuleApplied r)"
proof -
  have d: "''2024-01-01'' \<noteq> []" "''2024-01-07'' \<noteq> []" "''2024-01-03'' \<noteq> []" by simp_all
  have s: "parseTimeToMinutes ''09:00'' = Some 540" by code_simp
  have e: "parseTimeToMinutes ''10:10'' = Some 610" "parseTimeToMinutes ''13:00'' = Some 780"
    by code_simp+
  have lt: "(540 :: int) < 610" "(540 :: int) < 780" by simp_all
  have b: "jsNumber ''5'' = Some 5" "jsNumber ''31'' = Some 31" by code_simp+
  have ph: "isPublicHoliday ''2024-01-01''" by code_simp
  have su: "\<not> isPublicHoliday ''2024-01-07''" "isSundayDate ''2024-01-07''" by code_simp+
  have wd: "\<not> isPublicHoliday ''2024-01-03''" "\<not> isSundayDate ''2024-01-03''" by code_simp+
  have rounded: "roundedOf ''2024-01-01'' 540 610 5 =
      \<lparr>ot15Minutes = 0, ot20Minutes = 0, ph15Minutes = 75, ph25Minutes = 0\<rparr>"
    "roundedOf ''2024-01-07'' 540 780 31 =
      \<lparr>ot15Minutes = 0, ot20Minutes = 210, ph15Minutes = 0, ph25Minutes = 0\<rparr>"
    by code_simp+
  have paid: "paidOf ''2024-01-01'' 540 610 5 =
      (True, 240, \<lparr>ot15Minutes = 0, ot20Minutes = 0, ph15Minutes = 75, ph25Minutes = 165\<rparr>)"
    "paidOf ''2024-01-07'' 540 780 31 =
      (True, 240, \<lparr>ot15Minutes = 0, ot20Minutes = 240, ph15Minutes = 0, ph25Minutes = 0\<rparr>)"
    by code_simp+
  have hours: "toHours 240 = 4" "toHours 75 = 5 / 4" "toHours 165 = 11 / 4" by code_simp+
  have holiday: "\<exists>r. applyRules ''2024-01-01'' ''09:00'' ''10:10'' ''5'' = Result r \<and>
        minimumRuleApplied r \<and> paidHours r = 4 \<and> publicHoliday15 r = 5 / 4 \<and>
        publicHoliday25 r = 11 / 4"
    using minimum_payment_floor [OF d(1) s e(1) lt(1) b(1), THEN conjunct1] ph
    by (auto simp add: rounded paid hours)
  have sunday: "\<exists>r. applyRules ''2024-01-07'' ''09:00'' ''13:00'' ''31'' = Result r \<and>
        minimumRuleApplied r \<and> paidHours r = 4 \<and> overtime20 r = 4"
    using minimum_payment_floor [OF d(2) s e(2) lt(2) b(2), THEN conjunct1] su
    by (auto simp add: rounded paid hours)
  have weekday: "\<exists>r. applyRules ''2024-01-03'' ''09:00'' ''10:10'' ''5'' = Result r \<and>
        \<not> minimumRuleApplied r"
    using minimum_payment_floor [OF d(3) s e(1) lt(1) b(1), THEN conjunct1] wd
    by (auto simp: Let_def split_def)
  show ?thesis using d s e lt b ph su wd holiday sunday weekday by (simp add: rounded)
qed

subsection \<open>Break allocation\<close>

text \<open>
  C2. For a shift with numeric times within the day, start before end, and a break of a
  whole number of minutes, the break is taken from the in-span band first, then from the
  pre-span band, then from the post-span band, each cut being the smaller of the band and
  the break still to place; the minutes cut in total are the smaller of the break and the
  gross duration \<open>end - start\<close>. A 07:00 to 21:00 shift with a 90-minute break keeps 60
  pre-span and 60 post-span minutes and 630 in-span minutes.
\<close>

theorem break_allocation:
  assumes "parseTimeToMinutes startStr = Some start"
    and "parseTimeToMinutes endStr = Some end"
    and "start < end"
    and "end \<le> 1440"
    and "jsNumber breakMinutesInput = Some brk"
  shows "(breakMinutesOf breakMinutesInput = brk \<and>
          (let r = rawBands start end brk;
              afterMid = subtractBreak MidKey r;
              afterPre = subtractBreak PreKey afterMid;
              afterPost = subtractBreak PostKey afterPre
          in workedBands start end brk = afterPost \<and>
             pre r = overlapMinutes start end 0 480 \<and>
             mid r = overlapMinutes start end 480 1200 \<and>
             post r = overlapMinutes start end 1200 1440 \<and>
             mid afterMid = mid r - min (mid r) brk \<and>
             pre afterMid = pre r \<and> post afterMid = post r \<and>
             remainingBreak afterMid = brk - min (mid r) brk \<and>
             pre afterPre = pre r - min (pre r) (remainingBreak afterMid) \<and>
             mid afterPre = mid afterMid \<and> post afterPre = post r \<and>
             remainingBreak afterPre =
               remainingBreak afterMid - min (pre r) (remainingBreak afterMid) \<and>
             post afterPost = post r - min (post r) (remainingBreak afterPre) \<and>
             pre afterPost = pre afterPre \<and> mid afterPost = mid afterPre \<and>
             0 \<le> pre afterPost \<and> 0 \<le> mid afterPost \<and> 0 \<le> post afterPost \<and>
             pre r + mid r + post r = end - start \<and>
             (pre r + mid r + post r) - (pre afterPost + mid afterPost + post afterPost) =
               min brk (end - start))) \<and>
         (parseTimeToMinutes ''07:00'' = Some 420 \<and> parseTimeToMinutes ''21:00'' = Some 1260 \<and>
          jsNumber ''90'' = Some 90 \<and> breakMinutesOf ''90'' = 90 \<and>
          rawBands 420 1260 90 = \<lparr>pre = 60, mid = 720, post = 60, remainingBreak = 90\<rparr> \<and>
          workedBands 420 1260 90 = \<lparr>pre = 60, mid = 630, post = 60, remainingBreak = 0\<rparr>)"
  (is "(?coerced \<and> ?general) \<and> ?example")
proof -
  let ?r = "rawBands start end brk"
  have coerced: ?coerced using assms(5) by (rule breakMinutesOf_whole)
  have s0: "0 \<le> start" using assms(1) by (rule parseTimeToMinutes_nonneg)
  have b0: "0 \<le> brk" using assms(5) by (rule jsNumber_nonneg)
  have nn: "0 \<le> pre ?r" "0 \<le> mid ?r" "0 \<le> post ?r"
    by (simp_all add: overlapMinutes_nonneg)
  have total: "pre ?r + mid ?r + post ?r = end - start"
    using s0 assms(3,4) by (rule rawBands_total)
  have cut: "min (mid ?r) brk + min (pre ?r) (brk - min (mid ?r) brk) +
      min (post ?r) (brk - min (mid ?r) brk - min (pre ?r) (brk - min (mid ?r) brk)) =
      min brk (end - start)"
    using consumed_total [OF nn(1) nn(2) nn(3) b0] total by simp
  have general: ?general
    unfolding Let_def
  proof (intro conjI)
    show "pre ?r + mid ?r + post ?r -
      (pre (subtractBreak PostKey (subtractBreak PreKey (subtractBreak MidKey ?r))) +
       mid (subtractBreak PostKey (subtractBreak PreKey (subtractBreak MidKey ?r))) +
       post (subtractBreak PostKey (subtractBreak PreKey (subtractBreak MidKey ?r)))) =
      min brk (end - start)"
      using cut
      by (simp add: subtractBreak_simps
          del: rawBands_simps(1) rawBands_simps(2) rawBands_simps(3))
    show "pre ?r = overlapMinutes start end 0 480" by simp
    show "mid ?r = overlapMinutes start end 480 1200" by simp
    show "post ?r = overlapMinutes start end 1200 1440" by simp
  qed (simp_all add: subtractBreak_simps workedBands_def total
       del: rawBands_simps(1) rawBands_simps(2) rawBands_simps(3))
  have example: ?example
    by code_simp
  from coerced general example show ?thesis by blast
qed

theorem break_allocation_witness:
  "parseTimeToMinutes ''07:00'' = Some 420 \<and> parseTimeToMinutes ''21:00'' = Some 1260 \<and>
   (420 :: int) < 1260 \<and> (1260 :: int) \<le> 1440 \<and> jsNumber ''750'' = Some 750 \<and>
   rawBands 420 1260 750 = \<lparr>pre = 60, mid = 720, post = 60, remainingBreak = 750\<rparr> \<and>
   workedBands 420 1260 750 = \<lparr>pre = 30, mid = 0, post = 60, remainingBreak = 0\<rparr> \<and>
   (60 + 720 + 60) - (30 + 0 + 60) = min (750 :: int) (1260 - 420)"
proof -
  have s: "parseTimeToMinutes ''07:00'' = Some 420" by code_simp
  have e: "parseTimeToMinutes ''21:00'' = Some 1260" by code_simp
  have lt: "(420 :: int) < 1260" by simp
  have le: "(1260 :: int) \<le> 1440" by simp
  have b: "jsNumber ''750'' = Some 750" by code_simp
  have raw: "rawBands 420 1260 750 =
      \<lparr>pre = 60, mid = 720, post = 60, remainingBreak = 750\<rparr>" by code_simp
  have worked: "workedBands 420 1260 750 =
      \<lparr>pre = 30, mid = 0, post = 60, remainingBreak = 0\<rparr>" by code_simp
  have "(60 + 720 + 60) - (30 + 0 + 60) = min (750 :: int) (1260 - 420)"
    using break_allocation [OF s e lt le b, THEN conjunct1, THEN conjunct2]
    unfolding Let_def workedBands_def [symmetric] worked raw by simp
  with s e lt le b raw worked show ?thesis by simp
qed

subsection \<open>Weekday classification\<close>

text \<open>
  C3. For a shift with a date, two numeric times, start before end, and a break of a
  whole number of minutes, on a day that is neither a public holiday nor a Saturday or
  Sunday: ordinary minutes are the smaller of the in-span minutes after the break and
  420; the pre-span minutes, the in-span excess over 420 and the post-span minutes are
  three overtime segments, each rounded up on its own to the next multiple of 15 and then
  added; the first 120 minutes of that total are paid at 1.5 and the rest at 2.0. On
  Wednesday 2024-01-03, 08:00 to 17:00 with a 30-minute break gives 7 ordinary hours, 1.5
  hours at 1.5, none at 2.0 and 8.5 paid hours.
\<close>

theorem weekday_classification:
  assumes "dateStr \<noteq> []"
    and "parseTimeToMinutes startStr = Some start"
    and "parseTimeToMinutes endStr = Some end"
    and "start < end"
    and "jsNumber breakMinutesInput = Some brk"
    and "\<not> isPublicHoliday dateStr"
    and "\<not> isWeekendDate dateStr"
  shows "(\<exists>r. applyRules dateStr startStr endStr breakMinutesInput = Result r \<and>
     (let w = workedBands start end brk;
          raw = rawOf dateStr start end brk;
          b = roundedOf dateStr start end brk;
          total = roundUpToQuarter (pre w) + roundUpToQuarter (max 0 (mid w - 420)) +
                  roundUpToQuarter (post w)
      in ordinaryMinutes raw = min (mid w) 420 \<and>
         otSegments raw = [pre w, max 0 (mid w - 420), post w] \<and>
         otTotalRounded (otSegments raw) = total \<and>
         ot15Minutes b = min 120 total \<and> ot20Minutes b = max 0 (total - 120) \<and>
         ph15Minutes b = 0 \<and> ph25Minutes b = 0 \<and>
         paidOf dateStr start end brk =
           (False, min (mid w) 420 + min 120 total + max 0 (total - 120), b) \<and>
         ordinaryHours r = toHours (min (mid w) 420) \<and>
         overtime15 r = toHours (min 120 total) \<and>
         overtime20 r = toHours (max 0 (total - 120)) \<and>
         paidHours r = toHours (min (mid w) 420 + min 120 total + max 0 (total - 120)))) \<and>
     (let w = workedBands start end brk;
          inSpan = overlapMinutes start end 480 1200;
          gross = overlapMinutes start end 0 480 + inSpan + overlapMinutes start end 1200 1440
      in mid w = inSpan - min inSpan brk \<and>
         pre w + mid w + post w = gross - min brk gross \<and>
         list_all (\<lambda>q. 0 \<le> q \<and> 15 dvd roundUpToQuarter q \<and> q \<le> roundUpToQuarter q \<and>
                      roundUpToQuarter q < q + 15)
           [pre w, max 0 (mid w - 420), post w]) \<and>
     (getDayOfWeek ''2024-01-03'' = Some ''Wednesday'' \<and> \<not> isPublicHoliday ''2024-01-03'' \<and>
      mid (workedBands 480 1020 30) = 510 \<and>
      (case applyRules ''2024-01-03'' ''08:00'' ''17:00'' ''30'' of
         Result r \<Rightarrow> ordinaryHours r = 7 \<and> overtime15 r = 3 / 2 \<and> overtime20 r = 0 \<and>
                     paidHours r = 17 / 2
       | _ \<Rightarrow> False))"
  (is "?general \<and> ?pins \<and> ?example")
proof -
  have res: "applyRules dateStr startStr endStr breakMinutesInput =
      Result (calculate dateStr start end brk)"
    using assms(1-5) by (rule applyRules_whole)
  have ns: "\<not> isSundayDate dateStr"
    using assms(7) by (rule not_weekend_not_sunday)
  have b0: "0 \<le> brk" using assms(5) by (rule jsNumber_nonneg)
  have general: ?general
    unfolding res
    by (simp add: calculate_simps paidOf_other [OF assms(6) ns]
        roundedOf_overtime [OF assms(6) ns] rawOf_weekday [OF assms(6,7)]
        otTotalRounded_three assms(7) Let_def)
  have nn: "0 \<le> pre (workedBands start end brk)"
    "0 \<le> max 0 (mid (workedBands start end brk) - 420)"
    "0 \<le> post (workedBands start end brk)"
    using workedBands_nonneg [of start "end" brk] by simp_all
  have pins: ?pins
    unfolding Let_def
    using workedBands_inSpan [of start "end" brk] workedBands_total [OF b0, of start "end"]
      roundUpToQuarter_block [OF nn(1)] roundUpToQuarter_block [OF nn(2)]
      roundUpToQuarter_block [OF nn(3)] nn
    by simp
  have example: ?example
    by code_simp
  from general pins example show ?thesis by blast
qed

theorem weekday_classification_witness:
  "''2024-01-04'' \<noteq> [] \<and> parseTimeToMinutes ''07:50'' = Some 470 \<and>
   parseTimeToMinutes ''20:10'' = Some 1210 \<and> (470 :: int) < 1210 \<and>
   jsNumber ''25'' = Some 25 \<and>
   \<not> isPublicHoliday ''2024-01-04'' \<and> \<not> isWeekendDate ''2024-01-04'' \<and>
   rawBands 470 1210 25 = \<lparr>pre = 10, mid = 720, post = 10, remainingBreak = 25\<rparr> \<and>
   workedBands 470 1210 25 = \<lparr>pre = 10, mid = 695, post = 10, remainingBreak = 0\<rparr> \<and>
   roundUpToQuarter 10 = 15 \<and> roundUpToQuarter 275 = 285 \<and>
   (\<exists>r. applyRules ''2024-01-04'' ''07:50'' ''20:10'' ''25'' = Result r \<and>
        ordinaryHours r = 7 \<and> overtime15 r = 2 \<and> overtime20 r = 13 / 4 \<and>
        paidHours r = 49 / 4)"
proof -
  have d: "''2024-01-04'' \<noteq> []" by simp
  have s: "parseTimeToMinutes ''07:50'' = Some 470" by code_simp
  have e: "parseTimeToMinutes ''20:10'' = Some 1210" by code_simp
  have lt: "(470 :: int) < 1210" by simp
  have b: "jsNumber ''25'' = Some 25" by code_simp
  have ph: "\<not> isPublicHoliday ''2024-01-04''" by code_simp
  have wk: "\<not> isWeekendDate ''2024-01-04''" by code_simp
  have raw: "rawBands 470 1210 25 =
      \<lparr>pre = 10, mid = 720, post = 10, remainingBreak = 25\<rparr>" by code_simp
  have worked: "workedBands 470 1210 25 =
      \<lparr>pre = 10, mid = 695, post = 10, remainingBreak = 0\<rparr>" by code_simp
  have quarters: "roundUpToQuarter 10 = 15" "roundUpToQuarter 275 = 285" by code_simp+
  have hours: "toHours 420 = 7" "toHours 120 = 2" "toHours 195 = 13 / 4"
    "toHours 735 = 49 / 4" by code_simp+
  have "\<exists>r. applyRules ''2024-01-04'' ''07:50'' ''20:10'' ''25'' = Result r \<and>
        ordinaryHours r = 7 \<and> overtime15 r = 2 \<and> overtime20 r = 13 / 4 \<and>
        paidHours r = 49 / 4"
    using weekday_classification [OF d s e lt b ph wk, THEN conjunct1]
    by (auto simp add: worked quarters hours Let_def)
  with d s e lt b ph wk raw worked quarters show ?thesis by simp
qed

subsection \<open>Public holiday and Sunday classification\<close>

text \<open>
  C4. For a shift with a date, two numeric times, start before end, and a break of a
  whole number of minutes, on a date of the public-holiday table, whatever its weekday:
  the in-span minutes after the break are the raw 1.5 bucket and the pre-span plus
  post-span minutes the raw 2.5 bucket, each rounded up on its own to the next multiple
  of 15; ordinary and overtime minutes are zero; the result carries those buckets, the
  2.5 bucket topped up when the two fall short of 240 minutes. On 2024-01-01, 06:00 to
  22:00 with a 60-minute break gives 660 minutes at 1.5, 240 at 2.5, 15 paid hours, and
  the minimum rule does not fire.
\<close>

theorem public_holiday_classification:
  assumes "dateStr \<noteq> []"
    and "parseTimeToMinutes startStr = Some start"
    and "parseTimeToMinutes endStr = Some end"
    and "start < end"
    and "jsNumber breakMinutesInput = Some brk"
    and "isPublicHoliday dateStr"
  shows "(\<exists>r. applyRules dateStr startStr endStr breakMinutesInput = Result r \<and>
     (let w = workedBands start end brk;
          ph15 = roundUpToQuarter (mid w);
          ph25 = roundUpToQuarter (pre w + post w)
      in rawOf dateStr start end brk =
           \<lparr>ordinaryMinutes = 0, otSegments = [], sundayOTMinutesRaw = 0,
            ph15Raw = mid w, ph25Raw = pre w + post w\<rparr> \<and>
         roundedOf dateStr start end brk =
           \<lparr>ot15Minutes = 0, ot20Minutes = 0, ph15Minutes = ph15, ph25Minutes = ph25\<rparr> \<and>
         isPublicHolidayFlag r \<and>
         ordinaryHours r = 0 \<and> overtime15 r = 0 \<and> overtime20 r = 0 \<and>
         publicHoliday15 r = toHours ph15 \<and>
         publicHoliday25 r = toHours (ph25 + max 0 (240 - (ph15 + ph25))) \<and>
         paidHours r = toHours (max 240 (ph15 + ph25)) \<and>
         minimumRuleApplied r = (ph15 + ph25 < 240))) \<and>
     (let w = workedBands start end brk;
          inSpan = overlapMinutes start end 480 1200;
          gross = overlapMinutes start end 0 480 + inSpan + overlapMinutes start end 1200 1440
      in mid w = inSpan - min inSpan brk \<and>
         pre w + mid w + post w = gross - min brk gross \<and>
         list_all (\<lambda>q. 0 \<le> q \<and> 15 dvd roundUpToQuarter q \<and> q \<le> roundUpToQuarter q \<and>
                      roundUpToQuarter q < q + 15)
           [mid w, pre w + post w]) \<and>
     (isPublicHoliday ''2024-01-01'' \<and>
      rawBands 360 1320 60 = \<lparr>pre = 120, mid = 720, post = 120, remainingBreak = 60\<rparr> \<and>
      workedBands 360 1320 60 = \<lparr>pre = 120, mid = 660, post = 120, remainingBreak = 0\<rparr> \<and>
      roundedOf ''2024-01-01'' 360 1320 60 =
        \<lparr>ot15Minutes = 0, ot20Minutes = 0, ph15Minutes = 660, ph25Minutes = 240\<rparr> \<and>
      paidOf ''2024-01-01'' 360 1320 60 =
        (False, 900, \<lparr>ot15Minutes = 0, ot20Minutes = 0, ph15Minutes = 660, ph25Minutes = 240\<rparr>) \<and>
      (case applyRules ''2024-01-01'' ''06:00'' ''22:00'' ''60'' of
         Result r \<Rightarrow> paidHours r = 15 \<and> publicHoliday15 r = 11 \<and> publicHoliday25 r = 4 \<and>
                     \<not> minimumRuleApplied r
       | _ \<Rightarrow> False))"
  (is "?general \<and> ?pins \<and> ?example")
proof -
  have res: "applyRules dateStr startStr endStr breakMinutesInput =
      Result (calculate dateStr start end brk)"
    using assms(1-5) by (rule applyRules_whole)
  have b0: "0 \<le> brk" using assms(5) by (rule jsNumber_nonneg)
  have general: ?general
    unfolding res
    by (simp add: calculate_simps paidOf_PH [OF assms(6)] roundedOf_PH [OF assms(6)]
        rawOf_PH [OF assms(6)] assms(6) Let_def)
  have nn: "0 \<le> mid (workedBands start end brk)"
    "0 \<le> pre (workedBands start end brk) + post (workedBands start end brk)"
    using workedBands_nonneg [of start "end" brk] by simp_all
  have pins: ?pins
    unfolding Let_def
    using workedBands_inSpan [of start "end" brk] workedBands_total [OF b0, of start "end"]
      roundUpToQuarter_block [OF nn(1)] roundUpToQuarter_block [OF nn(2)] nn
    by simp
  have example: ?example
    by code_simp
  from general pins example show ?thesis by blast
qed

theorem public_holiday_classification_witness:
  "''2016-03-26'' \<noteq> [] \<and> parseTimeToMinutes ''07:50'' = Some 470 \<and>
   parseTimeToMinutes ''10:00'' = Some 600 \<and> (470 :: int) < 600 \<and>
   jsNumber ''20'' = Some 20 \<and>
   isPublicHoliday ''2016-03-26'' \<and> getDayOfWeek ''2016-03-26'' = Some ''Saturday'' \<and>
   rawBands 470 600 20 = \<lparr>pre = 10, mid = 120, post = 0, remainingBreak = 20\<rparr> \<and>
   workedBands 470 600 20 = \<lparr>pre = 10, mid = 100, post = 0, remainingBreak = 0\<rparr> \<and>
   roundUpToQuarter 100 = 105 \<and> roundUpToQuarter 10 = 15 \<and>
   (\<exists>r. applyRules ''2016-03-26'' ''07:50'' ''10:00'' ''20'' = Result r \<and>
        ordinaryHours r = 0 \<and> overtime15 r = 0 \<and> overtime20 r = 0 \<and>
        publicHoliday15 r = 7 / 4 \<and> publicHoliday25 r = 9 / 4 \<and> paidHours r = 4 \<and>
        minimumRuleApplied r)"
proof -
  have d: "''2016-03-26'' \<noteq> []" by simp
  have s: "parseTimeToMinutes ''07:50'' = Some 470" by code_simp
  have e: "parseTimeToMinutes ''10:00'' = Some 600" by code_simp
  have lt: "(470 :: int) < 600" by simp
  have b: "jsNumber ''20'' = Some 20" by code_simp
  have ph: "isPublicHoliday ''2016-03-26''" by code_simp
  have sat: "getDayOfWeek ''2016-03-26'' = Some ''Saturday''" by code_simp
  have raw: "rawBands 470 600 20 =
      \<lparr>pre = 10, mid = 120, post = 0, remainingBreak = 20\<rparr>" by code_simp
  have worked: "workedBands 470 600 20 =
      \<lparr>pre = 10, mid = 100, post = 0, remainingBreak = 0\<rparr>" by code_simp
  have quarters: "roundUpToQuarter 100 = 105" "roundUpToQuarter 10 = 15" by code_simp+
  have hours: "toHours 105 = 7 / 4" "toHours 135 = 9 / 4" "toHours 240 = 4" by code_simp+
  have "\<exists>r. applyRules ''2016-03-26'' ''07:50'' ''10:00'' ''20'' = Result r \<and>
        ordinaryHours r = 0 \<and> overtime15 r = 0 \<and> overtime20 r = 0 \<and>
        publicHoliday15 r = 7 / 4 \<and> publicHoliday25 r = 9 / 4 \<and> paidHours r = 4 \<and>
        minimumRuleApplied r"
    using public_holiday_classification [OF d s e lt b ph, THEN conjunct1]
    by (auto simp add: worked quarters hours Let_def)
  with d s e lt b ph sat raw worked quarters show ?thesis by simp
qed

text \<open>
  C5. For a shift with a date, two numeric times, start before end, and a break of a
  whole number of minutes, on a Sunday that is not a public holiday: all minutes worked
  after the break (the gross minutes less the break, at least none) form one raw bucket,
  which is rounded up once, as a whole, to the next multiple of 15 and paid at 2.0
  (topped up to 240 minutes by the minimum rule); ordinary minutes and the 1.5 overtime
  bucket are zero.
\<close>

theorem sunday_classification:
  assumes "dateStr \<noteq> []"
    and "parseTimeToMinutes startStr = Some start"
    and "parseTimeToMinutes endStr = Some end"
    and "start < end"
    and "jsNumber breakMinutesInput = Some brk"
    and "\<not> isPublicHoliday dateStr"
    and "isSundayDate dateStr"
  shows "(\<exists>r. applyRules dateStr startStr endStr breakMinutesInput = Result r \<and>
     (let w = workedBands start end brk;
          ot20 = roundUpToQuarter (pre w + mid w + post w)
      in rawOf dateStr start end brk =
           \<lparr>ordinaryMinutes = 0, otSegments = [], sundayOTMinutesRaw = pre w + mid w + post w,
            ph15Raw = 0, ph25Raw = 0\<rparr> \<and>
         roundedOf dateStr start end brk =
           \<lparr>ot15Minutes = 0, ot20Minutes = ot20, ph15Minutes = 0, ph25Minutes = 0\<rparr> \<and>
         ordinaryHours r = 0 \<and> overtime15 r = 0 \<and>
         overtime20 r = toHours (ot20 + max 0 (240 - ot20)) \<and>
         paidHours r = overtime20 r \<and>
         publicHoliday15 r = 0 \<and> publicHoliday25 r = 0)) \<and>
     (let w = workedBands start end brk;
          gross = overlapMinutes start end 0 480 + overlapMinutes start end 480 1200 +
                  overlapMinutes start end 1200 1440;
          worked = pre w + mid w + post w
      in worked = gross - min brk gross \<and> 0 \<le> worked \<and>
         15 dvd roundUpToQuarter worked \<and> worked \<le> roundUpToQuarter worked \<and>
         roundUpToQuarter worked < worked + 15)"
  (is "?general \<and> ?pins")
proof -
  have res: "applyRules dateStr startStr endStr breakMinutesInput =
      Result (calculate dateStr start end brk)"
    using assms(1-5) by (rule applyRules_whole)
  have b0: "0 \<le> brk" using assms(5) by (rule jsNumber_nonneg)
  have general: ?general
    unfolding res
    by (simp add: calculate_simps paidOf_Sunday [OF assms(6,7)]
        roundedOf_Sunday [OF assms(6,7)] rawOf_Sunday [OF assms(6,7)] Let_def)
  have nn: "0 \<le> pre (workedBands start end brk) + mid (workedBands start end brk) +
      post (workedBands start end brk)"
    using workedBands_nonneg [of start "end" brk] by simp
  have pins: ?pins
    unfolding Let_def
    using workedBands_total [OF b0, of start "end"] roundUpToQuarter_block [OF nn] nn
    by simp
  from general pins show ?thesis by (rule conjI)
qed

theorem sunday_classification_witness:
  "''2024-01-07'' \<noteq> [] \<and> parseTimeToMinutes ''07:55'' = Some 475 \<and>
   parseTimeToMinutes ''20:05'' = Some 1205 \<and> (475 :: int) < 1205 \<and>
   jsNumber ''20'' = Some 20 \<and>
   \<not> isPublicHoliday ''2024-01-07'' \<and> isSundayDate ''2024-01-07'' \<and>
   rawBands 475 1205 20 = \<lparr>pre = 5, mid = 720, post = 5, remainingBreak = 20\<rparr> \<and>
   workedBands 475 1205 20 = \<lparr>pre = 5, mid = 700, post = 5, remainingBreak = 0\<rparr> \<and>
   roundUpToQuarter 710 = 720 \<and>
   (\<exists>r. applyRules ''2024-01-07'' ''07:55'' ''20:05'' ''20'' = Result r \<and>
        ordinaryHours r = 0 \<and> overtime15 r = 0 \<and> overtime20 r = 12 \<and>
        paidHours r = 12)"
proof -
  have d: "''2024-01-07'' \<noteq> []" by simp
  have s: "parseTimeToMinutes ''07:55'' = Some 475" by code_simp
  have e: "parseTimeToMinutes ''20:05'' = Some 1205" by code_simp
  have lt: "(475 :: int) < 1205" by simp
  have b: "jsNumber ''20'' = Some 20" by code_simp
  have ph: "\<not> isPublicHoliday ''2024-01-07''" by code_simp
  have sun: "isSundayDate ''2024-01-07''" by code_simp
  have raw: "rawBands 475 1205 20 =
      \<lparr>pre = 5, mid = 720, post = 5, remainingBreak = 20\<rparr>" by code_simp
  have worked: "workedBands 475 1205 20 =
      \<lparr>pre = 5, mid = 700, post = 5, remainingBreak = 0\<rparr>" by code_simp
  have quarters: "roundUpToQuarter 710 = 720" by code_simp
  have hours: "toHours 720 = 12" by code_simp
  have "\<exists>r. applyRules ''2024-01-07'' ''07:55'' ''20:05'' ''20'' = Result r \<and>
        ordinaryHours r = 0 \<and> overtime15 r = 0 \<and> overtime20 r = 12 \<and>
        paidHours r = 12"
    using sunday_classification [OF d s e lt b ph sun, THEN conjunct1]
    by (auto simp add: worked quarters hours Let_def)
  with d s e lt b ph sun raw worked quarters show ?thesis by simp
qed

subsection \<open>Independent rounding of segments\<close>






subsection \<open>Rejected input\<close>

text \<open>
  C7. A call whose date, start time or end time is the empty string, or whose two times
  are numbers with the end not after the start, returns null: no result object.
\<close>

theorem invalid_input_null:
  assumes "dateStr = [] \<or> startStr = [] \<or> endStr = [] \<or>
     (\<exists>start end. parseTimeToMinutes startStr = Some start \<and>
        parseTimeToMinutes endStr = Some end \<and> end \<le> start)"
  shows "applyRules dateStr startStr endStr brk = Null"
  using assms by (auto simp add: applyRules_def)

theorem invalid_input_null_witness:
  "applyRules [] ''09:00'' ''17:00'' ''30'' = Null \<and>
   applyRules ''2024-01-03'' [] ''17:00'' ''30'' = Null \<and>
   applyRules ''2024-01-03'' ''09:00'' [] ''30'' = Null \<and>
   parseTimeToMinutes ''09:00'' = Some 540 \<and> parseTimeToMinutes ''08:59'' = Some 539 \<and>
   applyRules ''2024-01-03'' ''09:00'' ''09:00'' ''30'' = Null \<and>
   applyRules ''2024-01-03'' ''09:00'' ''08:59'' ''30'' = Null"
proof -
  have s: "parseTimeToMinutes ''09:00'' = Some 540" by code_simp
  have e: "parseTimeToMinutes ''08:59'' = Some 539" by code_simp
  have eq: "\<exists>start end. parseTimeToMinutes ''09:00'' = Some start \<and>
      parseTimeToMinutes ''09:00'' = Some end \<and> end \<le> start"
    using s by simp
  have lt: "\<exists>start end. parseTimeToMinutes ''09:00'' = Some start \<and>
      parseTimeToMinutes ''08:59'' = Some end \<and> end \<le> start"
    using s e by simp
  have "applyRules [] ''09:00'' ''17:00'' ''30'' = Null"
    by (rule invalid_input_null) simp
  moreover have "applyRules ''2024-01-03'' [] ''17:00'' ''30'' = Null"
    by (rule invalid_input_null) simp
  moreover have "applyRules ''2024-01-03'' ''09:00'' [] ''30'' = Null"
    by (rule invalid_input_null) simp
  moreover have "applyRules ''2024-01-03'' ''09:00'' ''09:00'' ''30'' = Null"
    by (rule invalid_input_null) (use eq in blast)
  moreover have "applyRules ''2024-01-03'' ''09:00'' ''08:59'' ''30'' = Null"
    by (rule invalid_input_null) (use lt in blast)
  ultimately show ?thesis using s e by simp
qed

subsection \<open>Meal allowances\<close>

text \<open>
  C8. For a shift with a date, two numeric times, start before end, and a break of a
  whole number of minutes, meal allowances are counted from the minutes worked after the
  break. On a day that is neither a public holiday nor a Saturday or Sunday, one
  allowance is added when the start is before 06:00 and one when the unrounded overtime
  (pre-span plus post-span plus in-span excess over 420) is more than 120 minutes and
  the end is after 18:00; the count is at most 2. On a Saturday, a Sunday or a public
  holiday the count is 1 when more than 5 hours were worked, that is more than 300
  minutes, and 0 otherwise. Each rule that fires appends its description to
  \<open>mealRules\<close>, in the order of the rules.
\<close>

theorem meal_allowances:
  assumes "dateStr \<noteq> []"
    and "parseTimeToMinutes startStr = Some start"
    and "parseTimeToMinutes endStr = Some end"
    and "start < end"
    and "jsNumber breakMinutesInput = Some brk"
  shows "(\<exists>r. applyRules dateStr startStr endStr breakMinutesInput = Result r \<and>
     (let w = workedBands start end brk;
          workedHours = toHours (pre w + mid w + post w);
          otMinutesTotal = pre w + post w + max 0 (mid w - 420);
          early = (start < 360);
          late = (120 < otMinutesTotal \<and> 1080 < end)
      in if \<not> isPublicHoliday dateStr \<and> \<not> isWeekendDate dateStr
         then mealAllowances r = (if early then 1 else 0) + (if late then 1 else 0) \<and>
              mealAllowances r \<le> 2 \<and>
              mealRules r =
                (if early then [''Work commenced before 06:00 on a weekday.''] else []) @
                (if late
                 then [''More than 2 hours overtime extending beyond 18:00 on a weekday.'']
                 else [])
         else mealAllowances r = (if 5 < workedHours then 1 else 0) \<and>
              mealRules r =
                (if isWeekendDate dateStr \<and> 5 < workedHours
                 then [''More than 5 hours worked on a weekend day.''] else []) @
                (if isPublicHoliday dateStr \<and> 5 < workedHours
                 then [''More than 5 hours worked on a public holiday.''] else []))) \<and>
     (let w = workedBands start end brk;
          inSpan = overlapMinutes start end 480 1200;
          gross = overlapMinutes start end 0 480 + inSpan + overlapMinutes start end 1200 1440
      in mid w = inSpan - min inSpan brk \<and>
         pre w + mid w + post w = gross - min brk gross \<and>
         (5 < toHours (pre w + mid w + post w)) = (300 < gross - min brk gross))"
  (is "?general \<and> ?pins")
proof -
  have res: "applyRules dateStr startStr endStr breakMinutesInput =
      Result (calculate dateStr start end brk)"
    using assms(1-5) by (rule applyRules_whole)
  have b0: "0 \<le> brk" using assms(5) by (rule jsNumber_nonneg)
  have general: ?general
  proof (cases "\<not> isPublicHoliday dateStr \<and> \<not> isWeekendDate dateStr")
    case True
    then have wd: "\<not> isPublicHoliday dateStr" "\<not> isWeekendDate dateStr" by simp_all
    show ?thesis
      unfolding res using True
      by (simp add: calculate_simps mealsOf_weekday [OF wd] Let_def)
  next
    case False
    then have other: "isPublicHoliday dateStr \<or> isWeekendDate dateStr" by blast
    show ?thesis
      unfolding res using False
      by (simp add: calculate_simps mealsOf_other [OF other] workedMinutes_def Let_def)
  qed
  have pins: ?pins
    unfolding Let_def
  proof (intro conjI)
    show "mid (workedBands start end brk) =
        overlapMinutes start end 480 1200 - min (overlapMinutes start end 480 1200) brk"
      by (rule workedBands_inSpan)
    show "pre (workedBands start end brk) + mid (workedBands start end brk) +
        post (workedBands start end brk) =
        overlapMinutes start end 0 480 + overlapMinutes start end 480 1200 +
        overlapMinutes start end 1200 1440 -
        min brk (overlapMinutes start end 0 480 + overlapMinutes start end 480 1200 +
                 overlapMinutes start end 1200 1440)"
      using b0 by (rule workedBands_total)
    then show "(5 < toHours (pre (workedBands start end brk) + mid (workedBands start end brk) +
        post (workedBands start end brk))) =
        (300 < overlapMinutes start end 0 480 + overlapMinutes start end 480 1200 +
        overlapMinutes start end 1200 1440 -
        min brk (overlapMinutes start end 0 480 + overlapMinutes start end 480 1200 +
                 overlapMinutes start end 1200 1440))"
      by (simp only: toHours_gt_5)
  qed
  from general pins show ?thesis by (rule conjI)
qed

theorem meal_allowances_witness:
  "''2024-01-04'' \<noteq> [] \<and> parseTimeToMinutes ''05:00'' = Some 300 \<and>
   parseTimeToMinutes ''21:30'' = Some 1290 \<and> (300 :: int) < 1290 \<and>
   jsNumber ''45'' = Some 45 \<and>
   \<not> isPublicHoliday ''2024-01-04'' \<and> \<not> isWeekendDate ''2024-01-04'' \<and>
   (\<exists>r. applyRules ''2024-01-04'' ''05:00'' ''21:30'' ''45'' = Result r \<and>
        mealAllowances r = 2 \<and>
        mealRules r = [''Work commenced before 06:00 on a weekday.'',
                       ''More than 2 hours overtime extending beyond 18:00 on a weekday.'']) \<and>
   parseTimeToMinutes ''08:00'' = Some 480 \<and> parseTimeToMinutes ''18:30'' = Some 1110 \<and>
   (480 :: int) < 1110 \<and> jsNumber ''100'' = Some 100 \<and>
   workedBands 480 1110 100 = \<lparr>pre = 0, mid = 530, post = 0, remainingBreak = 0\<rparr> \<and>
   (\<exists>r. applyRules ''2024-01-04'' ''08:00'' ''18:30'' ''100'' = Result r \<and>
        mealAllowances r = 0 \<and> mealRules r = []) \<and>
   ''2024-01-06'' \<noteq> [] \<and> parseTimeToMinutes ''14:00'' = Some 840 \<and> (480 :: int) < 840 \<and>
   jsNumber ''60'' = Some 60 \<and> jsNumber ''59'' = Some 59 \<and>
   \<not> isPublicHoliday ''2024-01-06'' \<and> isWeekendDate ''2024-01-06'' \<and>
   workedBands 480 840 60 = \<lparr>pre = 0, mid = 300, post = 0, remainingBreak = 0\<rparr> \<and>
   workedBands 480 840 59 = \<lparr>pre = 0, mid = 301, post = 0, remainingBreak = 0\<rparr> \<and>
   toHours 300 = 5 \<and> toHours 301 = 251 / 50 \<and>
   (\<exists>r. applyRules ''2024-01-06'' ''08:00'' ''14:00'' ''60'' = Result r \<and>
        mealAllowances r = 0 \<and> mealRules r = []) \<and>
   (\<exists>r. applyRules ''2024-01-06'' ''08:00'' ''14:00'' ''59'' = Result r \<and>
        mealAllowances r = 1 \<and>
        mealRules r = [''More than 5 hours worked on a weekend day.'']) \<and>
   ''2024-01-01'' \<noteq> [] \<and> isPublicHoliday ''2024-01-01'' \<and> \<not> isWeekendDate ''2024-01-01'' \<and>
   (\<exists>r. applyRules ''2024-01-01'' ''08:00'' ''14:00'' ''59'' = Result r \<and>
        mealAllowances r = 1 \<and>
        mealRules r = [''More than 5 hours worked on a public holiday.''])"
proof -
  have d: "''2024-01-04'' \<noteq> []" "''2024-01-06'' \<noteq> []" "''2024-01-01'' \<noteq> []" by simp_all
  have s: "parseTimeToMinutes ''05:00'' = Some 300" "parseTimeToMinutes ''08:00'' = Some 480"
    by code_simp+
  have e: "parseTimeToMinutes ''21:30'' = Some 1290" "parseTimeToMinutes ''18:30'' = Some 1110"
    "parseTimeToMinutes ''14:00'' = Some 840"
    by code_simp+
  have lt: "(300 :: int) < 1290" "(480 :: int) < 1110" "(480 :: int) < 840" by simp_all
  have b: "jsNumber ''45'' = Some 45" "jsNumber ''100'' = Some 100" "jsNumber ''60'' = Some 60"
    "jsNumber ''59'' = Some 59" by code_simp+
  have ph: "\<not> isPublicHoliday ''2024-01-04''" "\<not> isPublicHoliday ''2024-01-06''"
    "isPublicHoliday ''2024-01-01''"
    by code_simp+
  have wk: "\<not> isWeekendDate ''2024-01-04''" "isWeekendDate ''2024-01-06''"
    "\<not> isWeekendDate ''2024-01-01''" by code_simp+
  have worked: "workedBands 300 1290 45 =
      \<lparr>pre = 180, mid = 675, post = 90, remainingBreak = 0\<rparr>"
    "workedBands 480 1110 100 = \<lparr>pre = 0, mid = 530, post = 0, remainingBreak = 0\<rparr>"
    "workedBands 480 840 60 = \<lparr>pre = 0, mid = 300, post = 0, remainingBreak = 0\<rparr>"
    "workedBands 480 840 59 = \<lparr>pre = 0, mid = 301, post = 0, remainingBreak = 0\<rparr>"
    by code_simp+
  have hours: "toHours 300 = 5" "toHours 301 = 251 / 50" by code_simp+
  have early_late: "\<exists>r. applyRules ''2024-01-04'' ''05:00'' ''21:30'' ''45'' = Result r \<and>
        mealAllowances r = 2 \<and>
        mealRules r = [''Work commenced before 06:00 on a weekday.'',
                       ''More than 2 hours overtime extending beyond 18:00 on a weekday.'']"
    using meal_allowances [OF d(1) s(1) e(1) lt(1) b(1), THEN conjunct1] ph(1) wk(1)
    by (auto simp add: worked Let_def)
  have long_break: "\<exists>r. applyRules ''2024-01-04'' ''08:00'' ''18:30'' ''100'' = Result r \<and>
        mealAllowances r = 0 \<and> mealRules r = []"
    using meal_allowances [OF d(1) s(2) e(2) lt(2) b(2), THEN conjunct1] ph(1) wk(1)
    by (auto simp add: worked Let_def)
  have five: "\<exists>r. applyRules ''2024-01-06'' ''08:00'' ''14:00'' ''60'' = Result r \<and>
        mealAllowances r = 0 \<and> mealRules r = []"
    using meal_allowances [OF d(2) s(2) e(3) lt(3) b(3), THEN conjunct1] ph(2) wk(2)
    by (auto simp add: worked hours Let_def)
  have over_five: "\<exists>r. applyRules ''2024-01-06'' ''08:00'' ''14:00'' ''59'' = Result r \<and>
        mealAllowances r = 1 \<and>
        mealRules r = [''More than 5 hours worked on a weekend day.'']"
    using meal_allowances [OF d(2) s(2) e(3) lt(3) b(4), THEN conjunct1] ph(2) wk(2)
    by (auto simp add: worked hours Let_def)
  have holiday: "\<exists>r. applyRules ''2024-01-01'' ''08:00'' ''14:00'' ''59'' = Result r \<and>
        mealAllowances r = 1 \<and>
        mealRules r = [''More than 5 hours worked on a public holiday.'']"
    using meal_allowances [OF d(3) s(2) e(3) lt(3) b(4), THEN conjunct1] ph(3) wk(3)
    by (auto simp add: worked hours Let_def)
  from d s e lt b ph wk worked(2-4) hours early_late long_break five over_five holiday
  show ?thesis by simp
qed

text \<open>
  C9. For a shift with a date, two numeric times, start before end, and a break of a
  whole number of minutes, on a public holiday that is a Saturday or a Sunday, with more
  than 5 hours (more than 300 minutes) worked after the break: the allowance count is 1,
  while \<open>mealRules\<close> holds two reasons, the weekend one and the public-holiday one, so
  the reasons outnumber the allowances.
\<close>

theorem holiday_weekend_meal_reasons:
  assumes "dateStr \<noteq> []"
    and "parseTimeToMinutes startStr = Some start"
    and "parseTimeToMinutes endStr = Some end"
    and "start < end"
    and "jsNumber breakMinutesInput = Some brk"
    and "isPublicHoliday dateStr"
    and "isWeekendDate dateStr"
    and "5 < toHours (workedMinutes (workedBands start end brk))"
  shows "(\<exists>r. applyRules dateStr startStr endStr breakMinutesInput = Result r \<and>
     mealAllowances r = 1 \<and>
     mealRules r = [''More than 5 hours worked on a weekend day.'',
                    ''More than 5 hours worked on a public holiday.''] \<and>
     mealAllowances r < int (length (mealRules r))) \<and>
     (let gross = overlapMinutes start end 0 480 + overlapMinutes start end 480 1200 +
                  overlapMinutes start end 1200 1440
      in workedMinutes (workedBands start end brk) = gross - min brk gross \<and>
         300 < gross - min brk gross)"
  (is "?general \<and> ?pins")
proof -
  have res: "applyRules dateStr startStr endStr breakMinutesInput =
      Result (calculate dateStr start end brk)"
    using assms(1-5) by (rule applyRules_whole)
  have b0: "0 \<le> brk" using assms(5) by (rule jsNumber_nonneg)
  have other: "isPublicHoliday dateStr \<or> isWeekendDate dateStr"
    using assms(6) by simp
  have general: ?general
    unfolding res using assms(6-8)
    by (simp add: calculate_simps mealsOf_other [OF other])
  have pins: ?pins
    unfolding Let_def
    using workedBands_total [OF b0, of start "end"] assms(8)
    by (simp add: workedMinutes_def toHours_gt_5)
  from general pins show ?thesis by (rule conjI)
qed

theorem holiday_weekend_meal_reasons_witness:
  "''2016-12-25'' \<noteq> [] \<and> parseTimeToMinutes ''06:00'' = Some 360 \<and>
   parseTimeToMinutes ''12:30'' = Some 750 \<and> (360 :: int) < 750 \<and>
   jsNumber ''80'' = Some 80 \<and>
   isPublicHoliday ''2016-12-25'' \<and> getDayOfWeek ''2016-12-25'' = Some ''Sunday'' \<and>
   isWeekendDate ''2016-12-25'' \<and>
   workedMinutes (workedBands 360 750 80) = 310 \<and> toHours 310 = 517 / 100 \<and>
   5 < toHours (workedMinutes (workedBands 360 750 80)) \<and>
   (\<exists>r. applyRules ''2016-12-25'' ''06:00'' ''12:30'' ''80'' = Result r \<and>
        mealAllowances r = 1 \<and> length (mealRules r) = 2)"
proof -
  have d: "''2016-12-25'' \<noteq> []" by simp
  have s: "parseTimeToMinutes ''06:00'' = Some 360" by code_simp
  have e: "parseTimeToMinutes ''12:30'' = Some 750" by code_simp
  have lt: "(360 :: int) < 750" by simp
  have b: "jsNumber ''80'' = Some 80" by code_simp
  have ph: "isPublicHoliday ''2016-12-25''" by code_simp
  have sun: "getDayOfWeek ''2016-12-25'' = Some ''Sunday''" by code_simp
  have wk: "isWeekendDate ''2016-12-25''" by code_simp
  have worked: "workedMinutes (workedBands 360 750 80) = 310" by code_simp
  have hours: "toHours 310 = 517 / 100" by code_simp
  have hrs: "5 < toHours (workedMinutes (workedBands 360 750 80))"
    by code_simp
  have "\<exists>r. applyRules ''2016-12-25'' ''06:00'' ''12:30'' ''80'' = Result r \<and>
        mealAllowances r = 1 \<and> length (mealRules r) = 2"
    using holiday_weekend_meal_reasons [OF d s e lt b ph wk hrs, THEN conjunct1] by auto
  with d s e lt b ph sun wk worked hours hrs show ?thesis by simp
qed

subsection \<open>Exclusive pay buckets\<close>

lemma applyRules_Result_cases:
  assumes "applyRules dateStr startStr endStr brk = Result r"
  obtains start "end" where "r = calculate dateStr start end (breakMinutesOf brk)"
  using assms
  by (auto simp add: applyRules_def split: if_splits option.splits)

lemma ordinaryMinutes_weekend:
  assumes "isPublicHoliday d \<or> isWeekendDate d"
  shows "ordinaryMinutes (rawOf d s e b) = 0"
  using assms by (auto simp add: rawOf_def classify_def noRawMinutes_def)

lemma paidOf_not_PH:
  assumes "\<not> isPublicHoliday d"
  shows "ph15Minutes (snd (snd (paidOf d s e b))) = 0"
    and "ph25Minutes (snd (snd (paidOf d s e b))) = 0"
  using assms
  by (simp_all add: paidOf_def minimumRule_def roundedOf_def roundSegments_def noBuckets_def
      Let_def)

lemma paidOf_PH_overtime:
  assumes "isPublicHoliday d"
  shows "ot15Minutes (snd (snd (paidOf d s e b))) = 0"
    and "ot20Minutes (snd (snd (paidOf d s e b))) = 0"
  using assms by (simp_all add: paidOf_PH roundedOf_PH)

text \<open>
  C10. In every result object the pay buckets follow the day classification: both
  public-holiday buckets are 0 when the date is not a public holiday; ordinary hours and
  both overtime buckets are 0 when it is; ordinary hours are 0 on a Saturday or Sunday.
  The flags of the object are those of the date.
\<close>

theorem exclusive_buckets:
  assumes "applyRules dateStr startStr endStr brk = Result r"
  shows "isPublicHolidayFlag r = isPublicHoliday dateStr \<and>
     isWeekend r = isWeekendDate dateStr \<and>
     (if isPublicHolidayFlag r
      then ordinaryHours r = 0 \<and> overtime15 r = 0 \<and> overtime20 r = 0
      else publicHoliday15 r = 0 \<and> publicHoliday25 r = 0) \<and>
     (if isWeekend r then ordinaryHours r = 0 else True)"
proof -
  from assms obtain start "end"
    where r: "r = calculate dateStr start end (breakMinutesOf brk)"
    by (rule applyRules_Result_cases)
  show ?thesis
    unfolding r
    by (simp add: calculate_simps ordinaryMinutes_weekend paidOf_not_PH paidOf_PH_overtime)
qed

theorem exclusive_buckets_witness:
  "applyRules ''2024-01-04'' ''05:00'' ''21:30'' ''45'' =
     Result \<lparr>dayOfWeek = Some ''Thursday'', isWeekend = False, isPublicHolidayFlag = False,
             paidHours = 63 / 4, ordinaryHours = 7, overtime15 = 2, overtime20 = 27 / 4,
             publicHoliday15 = 0, publicHoliday25 = 0, minimumRuleApplied = False,
             mealAllowances = 2,
             mealRules = [''Work commenced before 06:00 on a weekday.'',
               ''More than 2 hours overtime extending beyond 18:00 on a weekday.'']\<rparr> \<and>
   (\<exists>r. applyRules ''2024-01-04'' ''05:00'' ''21:30'' ''45'' = Result r \<and>
        \<not> isPublicHolidayFlag r \<and> publicHoliday15 r = 0 \<and> publicHoliday25 r = 0) \<and>
   (\<exists>r. applyRules ''2016-03-26'' ''06:00'' ''22:00'' ''60'' = Result r \<and>
        isPublicHolidayFlag r \<and> isWeekend r \<and>
        ordinaryHours r = 0 \<and> overtime15 r = 0 \<and> overtime20 r = 0) \<and>
   (\<exists>r. applyRules ''2024-01-06'' ''08:00'' ''14:00'' ''0'' = Result r \<and>
        \<not> isPublicHolidayFlag r \<and> isWeekend r \<and> ordinaryHours r = 0)"
proof -
  have thursday: "applyRules ''2024-01-04'' ''05:00'' ''21:30'' ''45'' =
     Result \<lparr>dayOfWeek = Some ''Thursday'', isWeekend = False, isPublicHolidayFlag = False,
             paidHours = 63 / 4, ordinaryHours = 7, overtime15 = 2, overtime20 = 27 / 4,
             publicHoliday15 = 0, publicHoliday25 = 0, minimumRuleApplied = False,
             mealAllowances = 2,
             mealRules = [''Work commenced before 06:00 on a weekday.'',
               ''More than 2 hours overtime extending beyond 18:00 on a weekday.'']\<rparr>"
    by code_simp
  obtain h where holiday: "applyRules ''2016-03-26'' ''06:00'' ''22:00'' ''60'' = Result h"
    by (cases "applyRules ''2016-03-26'' ''06:00'' ''22:00'' ''60''")
       (simp_all add: applyRules_def parseTimeToMinutes_def jsNumber_def isDigit_def
          digitValue_def)
  obtain s where saturday: "applyRules ''2024-01-06'' ''08:00'' ''14:00'' ''0'' = Result s"
    by (cases "applyRules ''2024-01-06'' ''08:00'' ''14:00'' ''0''")
       (simp_all add: applyRules_def parseTimeToMinutes_def jsNumber_def isDigit_def
          digitValue_def)
  have ph: "\<not> isPublicHoliday ''2024-01-04''" "isPublicHoliday ''2016-03-26''"
    "\<not> isPublicHoliday ''2024-01-06''" by code_simp+
  have wk: "isWeekendDate ''2016-03-26''" "isWeekendDate ''2024-01-06''" by code_simp+
  have a: "\<exists>r. applyRules ''2024-01-04'' ''05:00'' ''21:30'' ''45'' = Result r \<and>
        \<not> isPublicHolidayFlag r \<and> publicHoliday15 r = 0 \<and> publicHoliday25 r = 0"
    using exclusive_buckets [OF thursday] thursday ph(1) by simp
  have b: "\<exists>r. applyRules ''2016-03-26'' ''06:00'' ''22:00'' ''60'' = Result r \<and>
        isPublicHolidayFlag r \<and> isWeekend r \<and>
        ordinaryHours r = 0 \<and> overtime15 r = 0 \<and> overtime20 r = 0"
    using exclusive_buckets [OF holiday] holiday ph(2) wk(1) by simp
  have c: "\<exists>r. applyRules ''2024-01-06'' ''08:00'' ''14:00'' ''0'' = Result r \<and>
        \<not> isPublicHolidayFlag r \<and> isWeekend r \<and> ordinaryHours r = 0"
    using exclusive_buckets [OF saturday] saturday ph(3) wk(2) by simp
  from thursday a b c show ?thesis by simp
qed

end
